theory Spec2Isabelle
  imports Complex_Main
begin

section \<open>Data model\<close>

text \<open>
  A feature is one BED entry as \<^verbatim>\<open>Feature.__init__\<close> stores it (features.py, lines 46-58):
  chromosome, start, end, name and strand.  The attribute \<^verbatim>\<open>size\<close> is computed once by the
  constructor as \<^verbatim>\<open>end - start\<close> and no method assigns to any attribute afterwards, so it
  is a derived function here.  Python integers are unbounded: \<^typ>\<open>int\<close>.
\<close>

record feature =
  chrom :: string
  start :: int
  fend :: int
  name :: string
  strand :: string

definition fsize :: "feature \<Rightarrow> int" where
  "fsize f = fend f - start f"

text \<open>
  The methods exchange regions as tab-separated strings \<^verbatim>\<open>"%s\t%d\t%d"\<close>; the one string
  that is not of that shape is the sentinel \<^verbatim>\<open>"NA\tNA\tNA"\<close>.  Formatting two integers
  never yields that sentinel, so a region is either the three fields or the sentinel.
\<close>

datatype bed_region = Bed string int int | NA_region

text \<open>
  One entry of a query result: the BED columns the code reads
  (\<^verbatim>\<open>.start\<close>, \<^verbatim>\<open>.end\<close>, \<^verbatim>\<open>.score\<close>).  Python floats are idealised as reals.
\<close>

datatype bed_line = BedLine (b_chrom: string) (b_start: int) (b_end: int) (b_name: string) (b_score: real)

text \<open>
  The value a simulation returns: a float, or one of the strings \<^verbatim>\<open>"NA"\<close>,
  \<^verbatim>\<open>"NameError1"\<close> (feature name without underscore) and \<^verbatim>\<open>"NameError2"\<close>
  (key missing in the dictionary of allowed regions).
\<close>

datatype score = NA | Score real | NameError1 | NameError2

text \<open>The Python exceptions the methods can raise.\<close>

datatype py_error = IndexError | ValueError | UnboundLocalError

section \<open>libtools.py\<close>

text \<open>\<^verbatim>\<open>numpy.mean\<close> of a non-empty list of floats.\<close>

definition mean :: "real list \<Rightarrow> real" where
  "mean xs = sum_list xs / real (length xs)"

text \<open>
  \<^verbatim>\<open>calculate_mean_score\<close> (libtools.py, lines 143-163).  A query result compares equal to
  \<^verbatim>\<open>''\<close> exactly when it holds no line, so it is a list here and \<^verbatim>\<open>''\<close> is \<^term>\<open>[]\<close>.
\<close>

definition calculate_mean_score :: "bed_line list \<Rightarrow> score" where
  "calculate_mean_score query_regions =
     (if query_regions = [] then NA
      else (let scores = map b_score query_regions in Score (mean scores)))"

text \<open>
  \<^verbatim>\<open>run_bedextract\<close> (libtools.py, lines 117-140).  The external program
  \<^verbatim>\<open>bedextract\<close> is the parameter \<open>bedextract\<close>: it maps the three fields of a region
  and a BED file to the lines of that file it reports.  The sentinel region is answered
  with the empty result without calling it.
\<close>

definition run_bedextract ::
  "(string \<Rightarrow> int \<Rightarrow> int \<Rightarrow> 'file \<Rightarrow> bed_line list) \<Rightarrow> bed_region \<Rightarrow> 'file \<Rightarrow> bed_line list" where
  "run_bedextract bedextract bed_region bed_file =
     (case bed_region of
        NA_region \<Rightarrow> []
      | Bed c s e \<Rightarrow> bedextract c s e bed_file)"

text \<open>
  \<^verbatim>\<open>check_overlap\<close> (libtools.py, lines 101-114) intersects two one-line BED strings and
  returns whether the intersection has an entry: the chromosomes are equal and the
  half-open ranges share a position.
\<close>

definition check_overlap :: "bed_region \<Rightarrow> bed_region \<Rightarrow> bool" where
  "check_overlap feature_string query_string =
     (case (feature_string, query_string) of
        (Bed c1 s1 e1, Bed c2 s2 e2) \<Rightarrow> c1 = c2 \<and> max s1 s2 < min e1 e2
      | _ \<Rightarrow> False)"

section \<open>features.py: flanking regions\<close>

text \<open>\<^verbatim>\<open>Feature.flanking_regions\<close> (features.py, lines 60-73); it returns (right, left).\<close>

definition flanking_regions :: "feature \<Rightarrow> int \<Rightarrow> int \<Rightarrow> bed_region \<times> bed_region" where
  "flanking_regions f window_r window_l =
     (let right_interval = (fend f + window_r, fend f + fsize f + window_r);
          left_interval = ((start f - window_l) - fsize f, start f - window_l);
          right = Bed (chrom f) (fst right_interval) (snd right_interval);
          left = Bed (chrom f) (fst left_interval) (snd left_interval)
      in (right, left))"

text \<open>The width of a region, for stating sizes.\<close>

definition region_size :: "bed_region \<Rightarrow> int option" where
  "region_size r = (case r of Bed c s e \<Rightarrow> Some (e - s) | NA_region \<Rightarrow> None)"

text \<open>
  \<^verbatim>\<open>Feature.flanking_simulation\<close> (features.py, lines 75-127), with the default windows
  of \<^verbatim>\<open>flanking_regions\<close>.  The four branches of the outer chain and of the inner chain
  are kept in the order of the source; both chains are exhaustive, so \<^verbatim>\<open>score\<close> is
  always bound at the \<^verbatim>\<open>return\<close>.  \<^verbatim>\<open>mean([score_l, score_r])\<close> is taken of two floats: a
  side mean is \<^verbatim>\<open>"NA"\<close> or a float, so the last case of the inner \<open>case\<close> is never reached.
\<close>

definition flanking_simulation ::
  "(string \<Rightarrow> int \<Rightarrow> int \<Rightarrow> 'file \<Rightarrow> bed_line list) \<Rightarrow> feature \<Rightarrow> 'file \<Rightarrow> 'file \<Rightarrow> score" where
  "flanking_simulation bedextract f not_allowed_regions_bed query_bed =
     (let (right_flank, left_flank) = flanking_regions f 1 1;
          intersect_r = run_bedextract bedextract right_flank not_allowed_regions_bed;
          intersect_l = run_bedextract bedextract left_flank not_allowed_regions_bed
      in if intersect_r \<noteq> [] \<and> intersect_l \<noteq> [] then NA
         else if intersect_r \<noteq> [] \<and> intersect_l = [] then
           (let left_feature = run_bedextract bedextract left_flank query_bed
            in calculate_mean_score left_feature)
         else if intersect_r = [] \<and> intersect_l \<noteq> [] then
           (let right_feature = run_bedextract bedextract right_flank query_bed
            in calculate_mean_score right_feature)
         else
           (let left_feature = run_bedextract bedextract left_flank query_bed;
                right_feature = run_bedextract bedextract right_flank query_bed;
                score_l = calculate_mean_score left_feature;
                score_r = calculate_mean_score right_feature
            in if score_l \<noteq> NA \<and> score_r \<noteq> NA then
                 (case (score_l, score_r) of
                    (Score l, Score r) \<Rightarrow> Score (mean [l, r])
                  | _ \<Rightarrow> NA)
               else if score_l \<noteq> NA \<and> score_r = NA then score_l
               else if score_l = NA \<and> score_r \<noteq> NA then score_r
               else NA))"

text \<open>
  A store for concrete runs: a BED file as the list of its lines, and the extraction that
  reports the lines sharing a position with the region, in file order.
\<close>

definition overlapping_lines :: "string \<Rightarrow> int \<Rightarrow> int \<Rightarrow> bed_line list \<Rightarrow> bed_line list" where
  "overlapping_lines c s e bed_file =
     filter (\<lambda>l. b_chrom l = c \<and> max (b_start l) s < min (b_end l) e) bed_file"

section \<open>The random source\<close>

text \<open>
  The module \<^verbatim>\<open>random\<close> is a global generator.  Its outcomes are read from a tape of raw
  draws \<open>rnd\<close> at a cursor that each call advances by one and returns, so that every
  sequence of outcomes is the run on some tape.
\<close>

type_synonym rng = "nat \<Rightarrow> nat"

text \<open>
  \<^verbatim>\<open>random.randrange(a, b)\<close>: an integer of the half-open range, and \<^verbatim>\<open>ValueError\<close>
  when the range is empty.
\<close>

definition randrange :: "rng \<Rightarrow> nat \<Rightarrow> int \<Rightarrow> int \<Rightarrow> py_error + (int \<times> nat)" where
  "randrange rnd c a b =
     (if a < b then Inr (a + int (rnd c mod nat (b - a)), Suc c) else Inl ValueError)"

text \<open>
  \<^verbatim>\<open>random.shuffle(regions_copy)\<close> followed by \<^verbatim>\<open>regions_copy[0]\<close>: only the head of the
  shuffled copy is read, and any element can come first, so the draw selects the position
  of the element that ends up first.  Shuffling an empty list does nothing and reading
  its head raises \<^verbatim>\<open>IndexError\<close>.
\<close>

definition shuffle_first :: "rng \<Rightarrow> nat \<Rightarrow> 'a list \<Rightarrow> py_error + ('a \<times> nat)" where
  "shuffle_first rnd c xs =
     (if xs = [] then Inl IndexError else Inr (xs ! (rnd c mod length xs), Suc c))"

text \<open>\<^verbatim>\<open>random.choice([right, left])\<close>.\<close>

definition choice2 :: "rng \<Rightarrow> nat \<Rightarrow> 'a \<Rightarrow> 'a \<Rightarrow> 'a \<times> nat" where
  "choice2 rnd c x y = (if rnd c mod 2 = 0 then x else y, Suc c)"

text \<open>\<^verbatim>\<open>sorted([x, y])\<close> as the pair (lower, upper).\<close>

definition sorted2 :: "int \<Rightarrow> int \<Rightarrow> int \<times> int" where
  "sorted2 x y = (min x y, max x y)"

definition MAX_ATTEMPTS :: nat where
  "MAX_ATTEMPTS = 100"

section \<open>features.py: random regions inside allowed regions\<close>

text \<open>
  One pass through the body of the loop of \<^verbatim>\<open>Feature.random_regions\<close> (features.py, lines
  156-168), up to its acceptance test: the candidate, whether the test accepts it, and
  the cursor.
\<close>

definition random_regions_attempt ::
  "feature \<Rightarrow> (int \<times> int) list \<Rightarrow> rng \<Rightarrow> nat \<Rightarrow> py_error + (bed_region \<times> bool \<times> nat)" where
  "random_regions_attempt f allowed_regions rnd c =
     (let feature_string = Bed (chrom f) (start f) (fend f)
      in case shuffle_first rnd c allowed_regions of
           Inl e \<Rightarrow> Inl e
         | Inr ((region_start, region_end), c1) \<Rightarrow>
             (case randrange rnd c1 region_start region_end of
                Inl e \<Rightarrow> Inl e
              | Inr (random_start, c2) \<Rightarrow>
                  (let random_end = random_start + fsize f;
                       random_string = Bed (chrom f) random_start random_end;
                       intersect = check_overlap feature_string random_string
                   in Inr (random_string, random_end < region_end \<and> intersect = False, c2))))"

text \<open>
  The loop \<^verbatim>\<open>while True\<close> of \<^verbatim>\<open>random_regions\<close> (lines 154-173).  It leaves only through
  its two \<^verbatim>\<open>break\<close>s or an exception, so the result is an option: \<^term>\<open>None\<close> is a run that
  never returns.  A returned value carries the region, the final value of
  \<^verbatim>\<open>attempts\<close> and the cursor of the random source.
\<close>

partial_function (option) random_regions_loop ::
  "feature \<Rightarrow> (int \<times> int) list \<Rightarrow> rng \<Rightarrow> nat \<Rightarrow> nat \<Rightarrow> (py_error + (bed_region \<times> nat \<times> nat)) option" where
  "random_regions_loop f allowed_regions rnd attempts c =
     (case random_regions_attempt f allowed_regions rnd c of
        Inl e \<Rightarrow> Some (Inl e)
      | Inr (random_string, accepted, c') \<Rightarrow>
          if accepted then Some (Inr (random_string, attempts + 1, c'))
          else if attempts + 1 = MAX_ATTEMPTS then Some (Inr (NA_region, attempts + 1, c'))
          else random_regions_loop f allowed_regions rnd (attempts + 1) c')"

definition random_regions ::
  "feature \<Rightarrow> (int \<times> int) list \<Rightarrow> rng \<Rightarrow> nat \<Rightarrow> (py_error + (bed_region \<times> nat \<times> nat)) option" where
  "random_regions f allowed_regions rnd c = random_regions_loop f allowed_regions rnd 0 c"

text \<open>\<^verbatim>\<open>str.split(sep)\<close> for a one-character separator, and indexing a list.\<close>

fun split_on :: "char \<Rightarrow> string \<Rightarrow> string list" where
  "split_on sep [] = [[]]"
| "split_on sep (x # xs) =
     (if x = sep then [] # split_on sep xs
      else (case split_on sep xs of
              w # ws \<Rightarrow> (x # w) # ws
            | [] \<Rightarrow> [[x]]))"

definition py_index :: "'a list \<Rightarrow> nat \<Rightarrow> py_error + 'a" where
  "py_index xs i = (if i < length xs then Inr (xs ! i) else Inl IndexError)"

text \<open>
  The loop of \<^verbatim>\<open>Feature.random_intragenic_simulation\<close> (features.py, lines 208-219): every
  pass calls \<^verbatim>\<open>random_regions\<close> again and queries the scores of what it returned.
\<close>

partial_function (option) random_intragenic_loop ::
  "(string \<Rightarrow> int \<Rightarrow> int \<Rightarrow> 'file \<Rightarrow> bed_line list) \<Rightarrow> feature \<Rightarrow> (int \<times> int) list \<Rightarrow> 'file \<Rightarrow>
   rng \<Rightarrow> nat \<Rightarrow> nat \<Rightarrow> (py_error + (score \<times> nat \<times> nat)) option" where
  "random_intragenic_loop bedextract f allowed_regions query_bed rnd attempts c =
     (case random_regions f allowed_regions rnd c of
        None \<Rightarrow> None
      | Some (Inl e) \<Rightarrow> Some (Inl e)
      | Some (Inr (random_region, n, c')) \<Rightarrow>
          (let random_features = run_bedextract bedextract random_region query_bed
           in if random_features \<noteq> [] then
                Some (Inr (calculate_mean_score random_features, attempts + 1, c'))
              else if attempts + 1 = MAX_ATTEMPTS then
                Some (Inr (calculate_mean_score random_features, attempts + 1, c'))
              else random_intragenic_loop bedextract f allowed_regions query_bed rnd
                     (attempts + 1) c'))"

text \<open>
  \<^verbatim>\<open>Feature.random_intragenic_simulation\<close> (features.py, lines 176-220).  The dictionary
  of allowed regions is read at a key (gene, transcript, chromosome) only.  A returned
  value carries the score and the cursor of the random source.
\<close>

definition random_intragenic_simulation ::
  "(string \<Rightarrow> int \<Rightarrow> int \<Rightarrow> 'file \<Rightarrow> bed_line list) \<Rightarrow> feature \<Rightarrow>
   (string \<times> string \<times> string \<rightharpoonup> (int \<times> int) list) \<Rightarrow> 'file \<Rightarrow> rng \<Rightarrow> nat \<Rightarrow>
   (py_error + (score \<times> nat)) option" where
  "random_intragenic_simulation bedextract f allowed_regions_dict query_bed rnd c =
     (if CHR ''_'' \<in> set (name f) then
        (let names = split_on CHR ''_'' (name f)
         in case py_index names 1 of
              Inl e \<Rightarrow> Some (Inl e)
            | Inr gene \<Rightarrow>
                (case py_index names 2 of
                   Inl e \<Rightarrow> Some (Inl e)
                 | Inr transcript \<Rightarrow>
                     (let key = (gene, transcript, chrom f)
                      in case allowed_regions_dict key of
                           None \<Rightarrow> Some (Inr (NameError2, c))
                         | Some allowed_regions \<Rightarrow>
                             (case random_intragenic_loop bedextract f allowed_regions query_bed rnd 0 c of
                                None \<Rightarrow> None
                              | Some (Inl e) \<Rightarrow> Some (Inl e)
                              | Some (Inr (score, n, c')) \<Rightarrow> Some (Inr (score, c'))))))
      else Some (Inr (NameError1, c)))"

section \<open>features.py: random regions in the flanking windows\<close>

text \<open>
  One pass through the body of the loop of \<^verbatim>\<open>Feature.random_flanking_regions\<close> (features.py,
  lines 258-282), up to the assignment of \<^verbatim>\<open>random_end\<close>: the chosen window, the pair
  (\<^verbatim>\<open>random_start\<close>, \<^verbatim>\<open>random_end\<close>) and the cursor.  When the chosen window overlaps a
  not-allowed region and neither \<^verbatim>\<open>flanking[1] < self.start\<close> nor
  \<^verbatim>\<open>flanking[1] > self.end\<close> holds, no branch assigns the two variables: they keep the
  values \<open>prev\<close> of the pass before, and on the first pass reading them raises
  \<^verbatim>\<open>UnboundLocalError\<close>.
\<close>

definition random_flanking_attempt ::
  "(string \<Rightarrow> int \<Rightarrow> int \<Rightarrow> 'file \<Rightarrow> bed_line list) \<Rightarrow> feature \<Rightarrow> 'file \<Rightarrow> int \<times> int \<Rightarrow> int \<times> int \<Rightarrow>
   rng \<Rightarrow> (int \<times> int) option \<Rightarrow> nat \<Rightarrow> py_error + ((int \<times> int) \<times> (int \<times> int) \<times> nat)" where
  "random_flanking_attempt bedextract f not_allowed_regions_bed right left rnd prev c =
     (let (flanking, c1) = choice2 rnd c right left;
          flank = Bed (chrom f) (fst flanking) (snd flanking);
          gene_overlap = run_bedextract bedextract flank not_allowed_regions_bed
      in if gene_overlap \<noteq> [] then
           (if snd flanking < start f then
              (let g_index = length gene_overlap - 1;
                   distance = start f - b_end (gene_overlap ! g_index)
               in case randrange rnd c1 (start f - distance) (start f) of
                    Inl e \<Rightarrow> Inl e
                  | Inr (random_start, c2) \<Rightarrow>
                      Inr (flanking, (random_start, random_start + fsize f), c2))
            else if snd flanking > fend f then
              (let distance = b_start (gene_overlap ! 0) - fend f
               in case randrange rnd c1 (fend f) (fend f + distance) of
                    Inl e \<Rightarrow> Inl e
                  | Inr (random_start, c2) \<Rightarrow>
                      Inr (flanking, (random_start, random_start + fsize f), c2))
            else (case prev of
                    None \<Rightarrow> Inl UnboundLocalError
                  | Some p \<Rightarrow> Inr (flanking, p, c1)))
         else (case randrange rnd c1 (fst flanking) (snd flanking) of
                 Inl e \<Rightarrow> Inl e
               | Inr (random_start, c2) \<Rightarrow>
                   Inr (flanking, (random_start, random_start + fsize f), c2)))"

text \<open>
  The acceptance test of \<^verbatim>\<open>random_flanking_regions\<close> (lines 284-290) on the outcome of a
  pass.
\<close>

definition random_flanking_accept :: "feature \<Rightarrow> int \<times> int \<Rightarrow> int \<times> int \<Rightarrow> bool" where
  "random_flanking_accept f flanking cand =
     (let feature_string = Bed (chrom f) (start f) (fend f);
          random_string = Bed (chrom f) (fst cand) (snd cand);
          intersect = check_overlap feature_string random_string
      in snd cand < snd flanking \<and> intersect = False)"

text \<open>The loop of \<^verbatim>\<open>random_flanking_regions\<close> (lines 256-295).\<close>

partial_function (option) random_flanking_loop ::
  "(string \<Rightarrow> int \<Rightarrow> int \<Rightarrow> 'file \<Rightarrow> bed_line list) \<Rightarrow> feature \<Rightarrow> 'file \<Rightarrow> int \<times> int \<Rightarrow> int \<times> int \<Rightarrow>
   rng \<Rightarrow> nat \<Rightarrow> (int \<times> int) option \<Rightarrow> nat \<Rightarrow> (py_error + (bed_region \<times> nat \<times> nat)) option" where
  "random_flanking_loop bedextract f not_allowed_regions_bed right left rnd attempts prev c =
     (case random_flanking_attempt bedextract f not_allowed_regions_bed right left rnd prev c of
        Inl e \<Rightarrow> Some (Inl e)
      | Inr (flanking, cand, c') \<Rightarrow>
          if random_flanking_accept f flanking cand then
            Some (Inr (Bed (chrom f) (fst cand) (snd cand), attempts + 1, c'))
          else if attempts + 1 = MAX_ATTEMPTS then Some (Inr (NA_region, attempts + 1, c'))
          else random_flanking_loop bedextract f not_allowed_regions_bed right left rnd
                 (attempts + 1) (Some cand) c')"

text \<open>
  \<^verbatim>\<open>Feature.random_flanking_regions\<close> (features.py, lines 223-296): the two windows
  (lines 247-252), then the loop.
\<close>

definition flanking_windows :: "feature \<Rightarrow> int \<Rightarrow> int \<Rightarrow> (int \<times> int) \<times> (int \<times> int)" where
  "flanking_windows f window_r window_l =
     (let right = sorted2 (fend f + 1) (fend f + window_r);
          left = (if window_l \<ge> start f then sorted2 (start f - 1) 0
                  else sorted2 (start f - 1) (start f - window_l))
      in (right, left))"

definition random_flanking_regions ::
  "(string \<Rightarrow> int \<Rightarrow> int \<Rightarrow> 'file \<Rightarrow> bed_line list) \<Rightarrow> feature \<Rightarrow> 'file \<Rightarrow> int \<Rightarrow> int \<Rightarrow>
   rng \<Rightarrow> nat \<Rightarrow> (py_error + (bed_region \<times> nat \<times> nat)) option" where
  "random_flanking_regions bedextract f not_allowed_regions_bed window_r window_l rnd c =
     (let (right, left) = flanking_windows f window_r window_l
      in random_flanking_loop bedextract f not_allowed_regions_bed right left rnd 0 None c)"

text \<open>The loop of \<^verbatim>\<open>Feature.random_flanking_simulation\<close> (features.py, lines 316-332).\<close>

partial_function (option) random_flanking_simulation_loop ::
  "(string \<Rightarrow> int \<Rightarrow> int \<Rightarrow> 'file \<Rightarrow> bed_line list) \<Rightarrow> feature \<Rightarrow> 'file \<Rightarrow> 'file \<Rightarrow> int \<Rightarrow> int \<Rightarrow>
   rng \<Rightarrow> nat \<Rightarrow> nat \<Rightarrow> (py_error + (score \<times> nat \<times> nat)) option" where
  "random_flanking_simulation_loop bedextract f not_allowed_regions_bed query_bed window_r window_l
      rnd attempts c =
     (case random_flanking_regions bedextract f not_allowed_regions_bed window_r window_l rnd c of
        None \<Rightarrow> None
      | Some (Inl e) \<Rightarrow> Some (Inl e)
      | Some (Inr (random_region, n, c')) \<Rightarrow>
          (let random_features = run_bedextract bedextract random_region query_bed
           in if random_features \<noteq> [] then
                Some (Inr (calculate_mean_score random_features, attempts + 1, c'))
              else if attempts + 1 = MAX_ATTEMPTS then
                Some (Inr (calculate_mean_score random_features, attempts + 1, c'))
              else random_flanking_simulation_loop bedextract f not_allowed_regions_bed query_bed
                     window_r window_l rnd (attempts + 1) c'))"

definition random_flanking_simulation ::
  "(string \<Rightarrow> int \<Rightarrow> int \<Rightarrow> 'file \<Rightarrow> bed_line list) \<Rightarrow> feature \<Rightarrow> 'file \<Rightarrow> 'file \<Rightarrow> int \<Rightarrow> int \<Rightarrow>
   rng \<Rightarrow> nat \<Rightarrow> (py_error + (score \<times> nat)) option" where
  "random_flanking_simulation bedextract f not_allowed_regions_bed query_bed window_r window_l rnd c =
     (case random_flanking_simulation_loop bedextract f not_allowed_regions_bed query_bed
             window_r window_l rnd 0 c of
        None \<Rightarrow> None
      | Some (Inl e) \<Rightarrow> Some (Inl e)
      | Some (Inr (score, n, c')) \<Rightarrow> Some (Inr (score, c')))"

text \<open>The feature chr1:1000-1010 used in the concrete runs.\<close>

definition example_feature :: feature where
  "example_feature =
     \<lparr>chrom = ''chr1'', start = 1000, fend = 1010, name = ''mir_ENSG1_ENST1'', strand = ''+''\<rparr>"

section \<open>Runs of rejected passes\<close>

text \<open>
  For stating what the loops do: the cursor after the first \<open>k\<close> passes of the loop of
  \<^verbatim>\<open>random_regions\<close>, provided each of them ends in a candidate that the acceptance test
  rejects.
\<close>

fun rejected_attempts :: "feature \<Rightarrow> (int \<times> int) list \<Rightarrow> rng \<Rightarrow> nat \<Rightarrow> nat \<Rightarrow> nat option" where
  "rejected_attempts f allowed_regions rnd 0 c = Some c"
| "rejected_attempts f allowed_regions rnd (Suc k) c =
     (case random_regions_attempt f allowed_regions rnd c of
        Inl e \<Rightarrow> None
      | Inr (random_string, accepted, c') \<Rightarrow>
          if accepted then None else rejected_attempts f allowed_regions rnd k c')"

text \<open>
  The same for the loop of \<^verbatim>\<open>random_flanking_regions\<close>, which also hands the last
  candidate on to the next pass.
\<close>

fun rejected_flanking_attempts ::
  "(string \<Rightarrow> int \<Rightarrow> int \<Rightarrow> 'file \<Rightarrow> bed_line list) \<Rightarrow> feature \<Rightarrow> 'file \<Rightarrow> int \<times> int \<Rightarrow> int \<times> int \<Rightarrow>
   rng \<Rightarrow> nat \<Rightarrow> (int \<times> int) option \<Rightarrow> nat \<Rightarrow> ((int \<times> int) option \<times> nat) option" where
  "rejected_flanking_attempts bedextract f not_allowed right left rnd 0 prev c = Some (prev, c)"
| "rejected_flanking_attempts bedextract f not_allowed right left rnd (Suc k) prev c =
     (case random_flanking_attempt bedextract f not_allowed right left rnd prev c of
        Inl e \<Rightarrow> None
      | Inr (flanking, cand, c') \<Rightarrow>
          if random_flanking_accept f flanking cand then None
          else rejected_flanking_attempts bedextract f not_allowed right left rnd k (Some cand) c')"

text \<open>Two tapes of draws for the concrete runs.\<close>

definition zero_tape :: rng where
  "zero_tape = (\<lambda>i. 0)"

definition count_tape :: rng where
  "count_tape = (\<lambda>i. i)"

section \<open>Runs of cycles without scores\<close>

text \<open>
  For stating what the outer loops do: the cursor after the first \<open>k\<close> passes of the loop of
  \<^verbatim>\<open>random_intragenic_simulation\<close>, provided each of them gets a region from
  \<^verbatim>\<open>random_regions\<close> whose query of the score store is empty; and the same for the loop of
  \<^verbatim>\<open>random_flanking_simulation\<close>.  Each pass samples at the cursor the pass before left.
\<close>

fun empty_intragenic_cycles ::
  "(string \<Rightarrow> int \<Rightarrow> int \<Rightarrow> 'file \<Rightarrow> bed_line list) \<Rightarrow> feature \<Rightarrow> (int \<times> int) list \<Rightarrow> 'file \<Rightarrow>
   rng \<Rightarrow> nat \<Rightarrow> nat \<Rightarrow> nat option" where
  "empty_intragenic_cycles bedextract f allowed_regions query_bed rnd 0 c = Some c"
| "empty_intragenic_cycles bedextract f allowed_regions query_bed rnd (Suc k) c =
     (case random_regions f allowed_regions rnd c of
        None \<Rightarrow> None
      | Some (Inl e) \<Rightarrow> None
      | Some (Inr (random_region, n, c')) \<Rightarrow>
          if run_bedextract bedextract random_region query_bed = [] then
            empty_intragenic_cycles bedextract f allowed_regions query_bed rnd k c'
          else None)"

fun empty_flanking_cycles ::
  "(string \<Rightarrow> int \<Rightarrow> int \<Rightarrow> 'file \<Rightarrow> bed_line list) \<Rightarrow> feature \<Rightarrow> 'file \<Rightarrow> 'file \<Rightarrow> int \<Rightarrow> int \<Rightarrow>
   rng \<Rightarrow> nat \<Rightarrow> nat \<Rightarrow> nat option" where
  "empty_flanking_cycles bedextract f not_allowed query_bed window_r window_l rnd 0 c = Some c"
| "empty_flanking_cycles bedextract f not_allowed query_bed window_r window_l rnd (Suc k) c =
     (case random_flanking_regions bedextract f not_allowed window_r window_l rnd c of
        None \<Rightarrow> None
      | Some (Inl e) \<Rightarrow> None
      | Some (Inr (random_region, n, c')) \<Rightarrow>
          if run_bedextract bedextract random_region query_bed = [] then
            empty_flanking_cycles bedextract f not_allowed query_bed window_r window_l rnd k c'
          else None)"

text \<open>A tape whose fourth draw differs, and a dictionary of allowed regions, for the concrete runs.\<close>

definition late_tape :: rng where
  "late_tape = (\<lambda>i. if i = 3 then 85 else 0)"

definition example_dict :: "string \<times> string \<times> string \<rightharpoonup> (int \<times> int) list" where
  "example_dict = Map.empty((''ENSG1'', ''ENST1'', ''chr1'') \<mapsto> [(10, 200)])"

text \<open>
  Not-allowed stores for the concrete runs, each of one gene on chr1: one that reaches back
  over the end of the feature chr1:1000-1010, one that starts five positions after it, and
  one far downstream; and a score store with a line in each of the regions sampled there.
\<close>

definition boundary_gene :: "bed_line list" where
  "boundary_gene = [BedLine ''chr1'' 1005 1500 ''gene'' 0]"

definition near_gene :: "bed_line list" where
  "near_gene = [BedLine ''chr1'' 1015 2000 ''gene'' 0]"

definition far_gene :: "bed_line list" where
  "far_gene = [BedLine ''chr1'' 1500 2000 ''gene'' 0]"

definition example_scores :: "bed_line list" where
  "example_scores = [BedLine ''chr1'' 12 13 ''id-1'' 5, BedLine ''chr1'' 1012 1013 ''id-2'' 7]"

section \<open>The score aggregator\<close>

lemma mean_score_empty_iff: "calculate_mean_score q = NA \<longleftrightarrow> q = []"
  by (simp add: calculate_mean_score_def Let_def)

text \<open>
  Claim C8.  \<^verbatim>\<open>calculate_mean_score\<close> returns \<^verbatim>\<open>"NA"\<close> exactly when its input is empty; on
  a non-empty input it returns the sum of the score fields divided by the number of
  lines, whatever the coordinates of the lines are (no weighting by length); a single
  line gives its own score, and two lines give half the sum of their scores in either
  order.
\<close>

theorem calculate_mean_score_spec:
  "(calculate_mean_score q = NA \<longleftrightarrow> q = []) \<and>
   (q \<noteq> [] \<longrightarrow>
      calculate_mean_score q = Score (sum_list (map b_score q) / real (length q))) \<and>
   calculate_mean_score [BedLine c1 a1 e1 n1 s1] = Score s1 \<and>
   calculate_mean_score [BedLine c1 a1 e1 n1 s1, BedLine c2 a2 e2 n2 s2] = Score ((s1 + s2) / 2) \<and>
   calculate_mean_score [BedLine c2 a2 e2 n2 s2, BedLine c1 a1 e1 n1 s1] =
     calculate_mean_score [BedLine c1 a1 e1 n1 s1, BedLine c2 a2 e2 n2 s2]"
  by (simp add: calculate_mean_score_def mean_def Let_def add.commute)

theorem calculate_mean_score_spec_witness:
  "[BedLine ''chr1'' 980 990 ''id-1'' 2, BedLine ''chr1'' 990 1000 ''id-2'' 4,
    BedLine ''chr1'' 1000 1001 ''id-3'' 9] \<noteq> [] \<and>
   calculate_mean_score
     [BedLine ''chr1'' 980 990 ''id-1'' 2, BedLine ''chr1'' 990 1000 ''id-2'' 4,
      BedLine ''chr1'' 1000 1001 ''id-3'' 9] = Score 5"
  using calculate_mean_score_spec
    [of "[BedLine ''chr1'' 980 990 ''id-1'' 2, BedLine ''chr1'' 990 1000 ''id-2'' 4,
          BedLine ''chr1'' 1000 1001 ''id-3'' 9]"]
  by simp

section \<open>Flanking windows\<close>

text \<open>
  Claim C9.  For every feature and all windows, \<^verbatim>\<open>flanking_regions\<close> returns the right
  region from \<open>end + window_r\<close> to \<open>end + size + window_r\<close> and the left region from
  \<open>start - window_l - size\<close> to \<open>start - window_l\<close>, both on the feature's chromosome and
  both exactly as wide as the feature.  It is a total function of the feature's
  coordinates: no input fails, and coordinates below zero are computed like any other.
\<close>

theorem flanking_regions_spec:
  "flanking_regions f window_r window_l =
     (Bed (chrom f) (fend f + window_r) (fend f + fsize f + window_r),
      Bed (chrom f) (start f - window_l - fsize f) (start f - window_l)) \<and>
   region_size (fst (flanking_regions f window_r window_l)) = Some (fsize f) \<and>
   region_size (snd (flanking_regions f window_r window_l)) = Some (fsize f)"
  by (simp add: flanking_regions_def region_size_def Let_def)

section \<open>Feature names and the dictionary of allowed regions\<close>

lemma split_on_not_Nil: "split_on sep s \<noteq> []"
  by (induction s) (auto split: list.splits)

lemma length_split_on: "length (split_on sep s) = Suc (count_list s sep)"
  by (induction s) (auto split: list.splits simp: split_on_not_Nil)

lemma count_list_pos_mem: "0 < count_list s x \<Longrightarrow> x \<in> set s"
  by (metis count_notin less_numeral_extra(3))

text \<open>
  Claim C10.  For every feature whose name holds exactly one underscore, whatever the
  dictionary, the stores and the random source are, \<^verbatim>\<open>random_intragenic_simulation\<close>
  raises \<^verbatim>\<open>IndexError\<close>: the name passes the test for an underscore, splits into two
  fields, and building the key reads the third.  It does not return \<^verbatim>\<open>"NameError1"\<close>,
  which is returned only for names without any underscore.
\<close>

theorem one_underscore_IndexError:
  "count_list (name f) CHR ''_'' = 1 \<Longrightarrow>
   random_intragenic_simulation bedextract f allowed_regions_dict query_bed rnd c = Some (Inl IndexError)"
proof -
  assume h: "count_list (name f) CHR ''_'' = 1"
  then have m: "CHR ''_'' \<in> set (name f)" by (simp add: count_list_pos_mem)
  have l: "length (split_on CHR ''_'' (name f)) = 2" using h by (simp add: length_split_on)
  show ?thesis using m l
    by (simp add: random_intragenic_simulation_def py_index_def Let_def)
qed

theorem one_underscore_IndexError_witness:
  "count_list (name \<lparr>chrom = ''chr2'', start = 1000, fend = 1010, name = ''mir_ENSG1'', strand = ''+''\<rparr>) CHR ''_'' = 1 \<and>
   random_intragenic_simulation overlapping_lines
     \<lparr>chrom = ''chr2'', start = 1000, fend = 1010, name = ''mir_ENSG1'', strand = ''+''\<rparr>
     (Map.empty((''ENSG1'', ''ENST1'', ''chr2'') \<mapsto> [(10, 200), (300, 500)])) [] (\<lambda>i. 0) 0 = Some (Inl IndexError)"
  using one_underscore_IndexError [of "\<lparr>chrom = ''chr2'', start = 1000, fend = 1010, name = ''mir_ENSG1'', strand = ''+''\<rparr>"
     overlapping_lines "Map.empty((''ENSG1'', ''ENST1'', ''chr2'') \<mapsto> [(10, 200), (300, 500)])" "[]" "\<lambda>i. 0" 0]
  by simp

text \<open>
  Claim C7.  For every feature whose name holds no underscore,
  \<^verbatim>\<open>random_intragenic_simulation\<close> returns \<^verbatim>\<open>"NameError1"\<close> whatever the dictionary and the
  stores hold, and the random source is left where it was: nothing was sampled.  For a
  feature whose name splits into at least three fields, when the key made of the second
  field, the third field and the chromosome is absent from the dictionary of allowed
  regions, it returns \<^verbatim>\<open>"NameError2"\<close>, again with the random source untouched.
\<close>

theorem name_errors:
  "(CHR ''_'' \<notin> set (name f) \<longrightarrow>
      random_intragenic_simulation bedextract f allowed_regions_dict query_bed rnd c = Some (Inr (NameError1, c))) \<and>
   (split_on CHR ''_'' (name f) = n0 # gene # transcript # rest \<and>
    allowed_regions_dict (gene, transcript, chrom f) = None \<longrightarrow>
      random_intragenic_simulation bedextract f allowed_regions_dict query_bed rnd c = Some (Inr (NameError2, c)))"
proof (intro conjI impI)
  assume "CHR ''_'' \<notin> set (name f)"
  then show "random_intragenic_simulation bedextract f allowed_regions_dict query_bed rnd c = Some (Inr (NameError1, c))"
    by (simp add: random_intragenic_simulation_def)
next
  assume h: "split_on CHR ''_'' (name f) = n0 # gene # transcript # rest \<and>
    allowed_regions_dict (gene, transcript, chrom f) = None"
  then have "length (split_on CHR ''_'' (name f)) = 3 + length rest" by simp
  then have "0 < count_list (name f) CHR ''_''" by (simp add: length_split_on)
  then have m: "CHR ''_'' \<in> set (name f)" by (rule count_list_pos_mem)
  show "random_intragenic_simulation bedextract f allowed_regions_dict query_bed rnd c = Some (Inr (NameError2, c))"
    using m h by (simp add: random_intragenic_simulation_def py_index_def Let_def)
qed

theorem name_errors_witness:
  "CHR ''_'' \<notin> set (name \<lparr>chrom = ''chr2'', start = 1000, fend = 1010, name = ''mir123'', strand = ''+''\<rparr>) \<and>
   random_intragenic_simulation overlapping_lines
     \<lparr>chrom = ''chr2'', start = 1000, fend = 1010, name = ''mir123'', strand = ''+''\<rparr>
     (Map.empty((''ENSG1'', ''ENST1'', ''chr2'') \<mapsto> [(10, 200), (300, 500)]))
     [BedLine ''chr2'' 10 11 ''id-1'' 1] (\<lambda>i. i) 7 = Some (Inr (NameError1, 7)) \<and>
   split_on CHR ''_'' (name \<lparr>chrom = ''chr2'', start = 1000, fend = 1010, name = ''mir_ENSG1_ENST1'', strand = ''+''\<rparr>)
     = ''mir'' # ''ENSG1'' # ''ENST1'' # [] \<and>
   (Map.empty((''ENSG1'', ''ENST1'', ''chr1'') \<mapsto> [(10, 200), (300, 500)])) (''ENSG1'', ''ENST1'', ''chr2'') = None \<and>
   random_intragenic_simulation overlapping_lines
     \<lparr>chrom = ''chr2'', start = 1000, fend = 1010, name = ''mir_ENSG1_ENST1'', strand = ''+''\<rparr>
     (Map.empty((''ENSG1'', ''ENST1'', ''chr1'') \<mapsto> [(10, 200), (300, 500)]))
     [BedLine ''chr2'' 10 11 ''id-1'' 1] (\<lambda>i. i) 7 = Some (Inr (NameError2, 7))"
  using name_errors [of "\<lparr>chrom = ''chr2'', start = 1000, fend = 1010, name = ''mir123'', strand = ''+''\<rparr>"
     overlapping_lines "Map.empty((''ENSG1'', ''ENST1'', ''chr2'') \<mapsto> [(10, 200), (300, 500)])"
     "[BedLine ''chr2'' 10 11 ''id-1'' 1]" "\<lambda>i. i" 7]
    name_errors [where f = "\<lparr>chrom = ''chr2'', start = 1000, fend = 1010, name = ''mir_ENSG1_ENST1'', strand = ''+''\<rparr>"
     and ?n0.0 = "''mir''" and gene = "''ENSG1''" and transcript = "''ENST1''" and rest = "[]"
     and allowed_regions_dict = "Map.empty((''ENSG1'', ''ENST1'', ''chr1'') \<mapsto> [(10, 200), (300, 500)])"
     and bedextract = overlapping_lines and query_bed = "[BedLine ''chr2'' 10 11 ''id-1'' 1]" and rnd = "\<lambda>i. i" and c = 7]
  by simp

section \<open>The flanking score\<close>

text \<open>
  Claim C1.  For every feature, every extraction engine and every pair of stores,
  \<^verbatim>\<open>flanking_simulation\<close> follows the table on the two overlap tests of the flank windows
  against the not-allowed store: both overlap, the result is \<^verbatim>\<open>"NA"\<close>; only the right one
  overlaps, it is the mean score of the left window's lines in the score store; only the
  left one overlaps, the mean score of the right window's lines; neither overlaps, it is
  the mean of the two side means when both sides have lines, the one side mean when
  exactly one side has lines, and \<^verbatim>\<open>"NA"\<close> when neither has.  A side mean is \<^verbatim>\<open>"NA"\<close> or a
  number, so the cases are exhaustive.
\<close>

theorem flanking_simulation_table:
  assumes "flanking_regions f 1 1 = (right, left)"
    and "overlap_right = (run_bedextract bedextract right not_allowed \<noteq> [])"
    and "overlap_left = (run_bedextract bedextract left not_allowed \<noteq> [])"
    and "score_l = calculate_mean_score (run_bedextract bedextract left query_bed)"
    and "score_r = calculate_mean_score (run_bedextract bedextract right query_bed)"
    and "result = flanking_simulation bedextract f not_allowed query_bed"
  shows "(overlap_right \<and> overlap_left \<longrightarrow> result = NA) \<and>
         (overlap_right \<and> \<not> overlap_left \<longrightarrow> result = score_l) \<and>
         (\<not> overlap_right \<and> overlap_left \<longrightarrow> result = score_r) \<and>
         (\<not> overlap_right \<and> \<not> overlap_left \<longrightarrow>
            (\<forall>l r. score_l = Score l \<and> score_r = Score r \<longrightarrow> result = Score ((l + r) / 2)) \<and>
            (score_l \<noteq> NA \<and> score_r = NA \<longrightarrow> result = score_l) \<and>
            (score_l = NA \<and> score_r \<noteq> NA \<longrightarrow> result = score_r) \<and>
            (score_l = NA \<and> score_r = NA \<longrightarrow> result = NA)) \<and>
         (score_l = NA \<or> (\<exists>l. score_l = Score l)) \<and>
         (score_r = NA \<or> (\<exists>r. score_r = Score r))"
  using assms
  by (auto simp add: flanking_simulation_def calculate_mean_score_def Let_def mean_def)

theorem flanking_simulation_table_witness:
  "flanking_regions example_feature 1 1 = (Bed ''chr1'' 1011 1021, Bed ''chr1'' 989 999) \<and>
   flanking_simulation overlapping_lines example_feature
     [BedLine ''chr1'' 900 3000 ''gene'' 0]
     [BedLine ''chr1'' 980 990 ''id-1'' 2] = NA \<and>
   flanking_simulation overlapping_lines example_feature
     [BedLine ''chr1'' 1011 3000 ''gene'' 0]
     [BedLine ''chr1'' 980 990 ''id-1'' 2] = Score 2 \<and>
   flanking_simulation overlapping_lines example_feature
     [BedLine ''chr1'' 900 995 ''gene'' 0]
     [BedLine ''chr1'' 1015 1016 ''id-1'' 3, BedLine ''chr1'' 1016 1017 ''id-2'' 5] = Score 4 \<and>
   flanking_simulation overlapping_lines example_feature
     []
     [BedLine ''chr1'' 980 990 ''id-1'' 2, BedLine ''chr1'' 1015 1016 ''id-2'' 4] = Score 3 \<and>
   flanking_simulation overlapping_lines example_feature
     []
     [BedLine ''chr1'' 980 990 ''id-1'' 2] = Score 2 \<and>
   flanking_simulation overlapping_lines example_feature
     []
     [BedLine ''chr1'' 1015 1016 ''id-2'' 4] = Score 4 \<and>
   flanking_simulation overlapping_lines example_feature
     []
     [] = NA"
proof -
  have w: "flanking_regions example_feature 1 1 = (Bed ''chr1'' 1011 1021, Bed ''chr1'' 989 999)"
    by (simp add: example_feature_def flanking_regions_def fsize_def)
  have lines:
    "overlapping_lines ''chr1'' 1011 1021 [BedLine ''chr1'' 900 3000 ''gene'' 0] = [BedLine ''chr1'' 900 3000 ''gene'' 0]"
    "overlapping_lines ''chr1'' 989 999 [BedLine ''chr1'' 900 3000 ''gene'' 0] = [BedLine ''chr1'' 900 3000 ''gene'' 0]"
    "overlapping_lines ''chr1'' 1011 1021 [BedLine ''chr1'' 1011 3000 ''gene'' 0] = [BedLine ''chr1'' 1011 3000 ''gene'' 0]"
    "overlapping_lines ''chr1'' 989 999 [BedLine ''chr1'' 1011 3000 ''gene'' 0] = []"
    "overlapping_lines ''chr1'' 1011 1021 [BedLine ''chr1'' 900 995 ''gene'' 0] = []"
    "overlapping_lines ''chr1'' 989 999 [BedLine ''chr1'' 900 995 ''gene'' 0] = [BedLine ''chr1'' 900 995 ''gene'' 0]"
    "overlapping_lines ''chr1'' 1011 1021 [BedLine ''chr1'' 980 990 ''id-1'' 2] = []"
    "overlapping_lines ''chr1'' 989 999 [BedLine ''chr1'' 980 990 ''id-1'' 2] = [BedLine ''chr1'' 980 990 ''id-1'' 2]"
    "overlapping_lines ''chr1'' 1011 1021 [BedLine ''chr1'' 1015 1016 ''id-1'' 3, BedLine ''chr1'' 1016 1017 ''id-2'' 5]
       = [BedLine ''chr1'' 1015 1016 ''id-1'' 3, BedLine ''chr1'' 1016 1017 ''id-2'' 5]"
    "overlapping_lines ''chr1'' 989 999 [BedLine ''chr1'' 1015 1016 ''id-1'' 3, BedLine ''chr1'' 1016 1017 ''id-2'' 5] = []"
    "overlapping_lines ''chr1'' 1011 1021 [BedLine ''chr1'' 980 990 ''id-1'' 2, BedLine ''chr1'' 1015 1016 ''id-2'' 4]
       = [BedLine ''chr1'' 1015 1016 ''id-2'' 4]"
    "overlapping_lines ''chr1'' 989 999 [BedLine ''chr1'' 980 990 ''id-1'' 2, BedLine ''chr1'' 1015 1016 ''id-2'' 4]
       = [BedLine ''chr1'' 980 990 ''id-1'' 2]"
    "overlapping_lines ''chr1'' 1011 1021 [BedLine ''chr1'' 1015 1016 ''id-2'' 4] = [BedLine ''chr1'' 1015 1016 ''id-2'' 4]"
    "overlapping_lines ''chr1'' 989 999 [BedLine ''chr1'' 1015 1016 ''id-2'' 4] = []"
    "\<And>c s e. overlapping_lines c s e [] = []"
    by (simp_all add: overlapping_lines_def)
  have r0: "flanking_simulation overlapping_lines example_feature
     [BedLine ''chr1'' 900 3000 ''gene'' 0]
     [BedLine ''chr1'' 980 990 ''id-1'' 2] = NA"
    using w lines
      flanking_simulation_table [where f = example_feature and bedextract = overlapping_lines
        and right = "Bed ''chr1'' 1011 1021" and left = "Bed ''chr1'' 989 999"
        and not_allowed = "[BedLine ''chr1'' 900 3000 ''gene'' 0]"
        and query_bed = "[BedLine ''chr1'' 980 990 ''id-1'' 2]"
        and overlap_right = True and overlap_left = True
        and score_l = "(Score 2)" and score_r = "NA"
        and result = "flanking_simulation overlapping_lines example_feature
          [BedLine ''chr1'' 900 3000 ''gene'' 0]
          [BedLine ''chr1'' 980 990 ''id-1'' 2]"]
    by (simp add: run_bedextract_def calculate_mean_score_def mean_def)
  have r1: "flanking_simulation overlapping_lines example_feature
     [BedLine ''chr1'' 1011 3000 ''gene'' 0]
     [BedLine ''chr1'' 980 990 ''id-1'' 2] = Score 2"
    using w lines
      flanking_simulation_table [where f = example_feature and bedextract = overlapping_lines
        and right = "Bed ''chr1'' 1011 1021" and left = "Bed ''chr1'' 989 999"
        and not_allowed = "[BedLine ''chr1'' 1011 3000 ''gene'' 0]"
        and query_bed = "[BedLine ''chr1'' 980 990 ''id-1'' 2]"
        and overlap_right = True and overlap_left = False
        and score_l = "(Score 2)" and score_r = "NA"
        and result = "flanking_simulation overlapping_lines example_feature
          [BedLine ''chr1'' 1011 3000 ''gene'' 0]
          [BedLine ''chr1'' 980 990 ''id-1'' 2]"]
    by (simp add: run_bedextract_def calculate_mean_score_def mean_def)
  have r2: "flanking_simulation overlapping_lines example_feature
     [BedLine ''chr1'' 900 995 ''gene'' 0]
     [BedLine ''chr1'' 1015 1016 ''id-1'' 3, BedLine ''chr1'' 1016 1017 ''id-2'' 5] = Score 4"
    using w lines
      flanking_simulation_table [where f = example_feature and bedextract = overlapping_lines
        and right = "Bed ''chr1'' 1011 1021" and left = "Bed ''chr1'' 989 999"
        and not_allowed = "[BedLine ''chr1'' 900 995 ''gene'' 0]"
        and query_bed = "[BedLine ''chr1'' 1015 1016 ''id-1'' 3, BedLine ''chr1'' 1016 1017 ''id-2'' 5]"
        and overlap_right = False and overlap_left = True
        and score_l = "NA" and score_r = "(Score 4)"
        and result = "flanking_simulation overlapping_lines example_feature
          [BedLine ''chr1'' 900 995 ''gene'' 0]
          [BedLine ''chr1'' 1015 1016 ''id-1'' 3, BedLine ''chr1'' 1016 1017 ''id-2'' 5]"]
    by (simp add: run_bedextract_def calculate_mean_score_def mean_def)
  have r3: "flanking_simulation overlapping_lines example_feature
     []
     [BedLine ''chr1'' 980 990 ''id-1'' 2, BedLine ''chr1'' 1015 1016 ''id-2'' 4] = Score 3"
    using w lines
      flanking_simulation_table [where f = example_feature and bedextract = overlapping_lines
        and right = "Bed ''chr1'' 1011 1021" and left = "Bed ''chr1'' 989 999"
        and not_allowed = "[]"
        and query_bed = "[BedLine ''chr1'' 980 990 ''id-1'' 2, BedLine ''chr1'' 1015 1016 ''id-2'' 4]"
        and overlap_right = False and overlap_left = False
        and score_l = "(Score 2)" and score_r = "(Score 4)"
        and result = "flanking_simulation overlapping_lines example_feature
          []
          [BedLine ''chr1'' 980 990 ''id-1'' 2, BedLine ''chr1'' 1015 1016 ''id-2'' 4]"]
    by (simp add: run_bedextract_def calculate_mean_score_def mean_def)
  have r4: "flanking_simulation overlapping_lines example_feature
     []
     [BedLine ''chr1'' 980 990 ''id-1'' 2] = Score 2"
    using w lines
      flanking_simulation_table [where f = example_feature and bedextract = overlapping_lines
        and right = "Bed ''chr1'' 1011 1021" and left = "Bed ''chr1'' 989 999"
        and not_allowed = "[]"
        and query_bed = "[BedLine ''chr1'' 980 990 ''id-1'' 2]"
        and overlap_right = False and overlap_left = False
        and score_l = "(Score 2)" and score_r = "NA"
        and result = "flanking_simulation overlapping_lines example_feature
          []
          [BedLine ''chr1'' 980 990 ''id-1'' 2]"]
    by (simp add: run_bedextract_def calculate_mean_score_def mean_def)
  have r5: "flanking_simulation overlapping_lines example_feature
     []
     [BedLine ''chr1'' 1015 1016 ''id-2'' 4] = Score 4"
    using w lines
      flanking_simulation_table [where f = example_feature and bedextract = overlapping_lines
        and right = "Bed ''chr1'' 1011 1021" and left = "Bed ''chr1'' 989 999"
        and not_allowed = "[]"
        and query_bed = "[BedLine ''chr1'' 1015 1016 ''id-2'' 4]"
        and overlap_right = False and overlap_left = False
        and score_l = "NA" and score_r = "(Score 4)"
        and result = "flanking_simulation overlapping_lines example_feature
          []
          [BedLine ''chr1'' 1015 1016 ''id-2'' 4]"]
    by (simp add: run_bedextract_def calculate_mean_score_def mean_def)
  have r6: "flanking_simulation overlapping_lines example_feature
     []
     [] = NA"
    using w lines
      flanking_simulation_table [where f = example_feature and bedextract = overlapping_lines
        and right = "Bed ''chr1'' 1011 1021" and left = "Bed ''chr1'' 989 999"
        and not_allowed = "[]"
        and query_bed = "[]"
        and overlap_right = False and overlap_left = False
        and score_l = "NA" and score_r = "NA"
        and result = "flanking_simulation overlapping_lines example_feature
          []
          []"]
    by (simp add: run_bedextract_def calculate_mean_score_def mean_def)
  show ?thesis using w r0 r1 r2 r3 r4 r5 r6 by simp
qed

section \<open>The loop of random_regions\<close>

lemma random_regions_loop_cases:
  "a < MAX_ATTEMPTS \<Longrightarrow>
   \<exists>k c1. a + k < MAX_ATTEMPTS \<and> rejected_attempts f ar rnd k c = Some c1 \<and>
     (case random_regions_attempt f ar rnd c1 of
        Inl e \<Rightarrow> random_regions_loop f ar rnd a c = Some (Inl e)
      | Inr (r, accepted, c') \<Rightarrow>
          if accepted then random_regions_loop f ar rnd a c = Some (Inr (r, a + k + 1, c'))
          else a + k + 1 = MAX_ATTEMPTS \<and>
               random_regions_loop f ar rnd a c = Some (Inr (NA_region, MAX_ATTEMPTS, c')))"
proof (induction "MAX_ATTEMPTS - a" arbitrary: a c)
  case 0
  then show ?case by simp
next
  case (Suc m)
  show ?case
  proof (cases "random_regions_attempt f ar rnd c")
    case (Inl e)
    then show ?thesis using Suc.prems
      by (intro exI[of _ 0] exI[of _ c]) (simp add: random_regions_loop.simps)
  next
    case (Inr t)
    obtain r accepted c' where t: "t = (r, accepted, c')" by (cases t) auto
    show ?thesis
    proof (cases "accepted \<or> a + 1 = MAX_ATTEMPTS")
      case True
      then show ?thesis using Suc.prems Inr t
        by (intro exI[of _ 0] exI[of _ c]) (auto simp add: random_regions_loop.simps)
    next
      case False
      then have lt: "a + 1 < MAX_ATTEMPTS" and na: "\<not> accepted" using Suc.prems by auto
      have m: "m = MAX_ATTEMPTS - (a + 1)" using Suc.hyps(2) by simp
      from Suc.hyps(1)[OF m lt, of c'] obtain k c1 where
        k: "a + 1 + k < MAX_ATTEMPTS" "rejected_attempts f ar rnd k c' = Some c1" and
        rest: "(case random_regions_attempt f ar rnd c1 of
          Inl e \<Rightarrow> random_regions_loop f ar rnd (a + 1) c' = Some (Inl e)
        | Inr (r, accepted, c'') \<Rightarrow>
            if accepted then random_regions_loop f ar rnd (a + 1) c' = Some (Inr (r, a + 1 + k + 1, c''))
            else a + 1 + k + 1 = MAX_ATTEMPTS \<and>
                 random_regions_loop f ar rnd (a + 1) c' = Some (Inr (NA_region, MAX_ATTEMPTS, c'')))"
        by blast
      have unfold: "random_regions_loop f ar rnd a c = random_regions_loop f ar rnd (a + 1) c'"
        using Inr t na False by (subst random_regions_loop.simps) simp
      have rej: "rejected_attempts f ar rnd (Suc k) c = Some c1"
        using Inr t na k(2) by simp
      show ?thesis
        apply (rule exI[of _ "Suc k"], rule exI[of _ c1])
        using k(1) rej rest unfold
        by (auto split: sum.splits prod.splits if_splits)
    qed
  qed
qed

lemma rejected_attempts_add:
  "rejected_attempts f ar rnd (k + j) c =
     (case rejected_attempts f ar rnd k c of
        None \<Rightarrow> None
      | Some c1 \<Rightarrow> rejected_attempts f ar rnd j c1)"
  by (induction k arbitrary: c) (auto split: sum.splits)

lemma random_regions_returns: "\<exists>res. random_regions f ar rnd c = Some res"
proof -
  obtain k c1 where
    rest: "(case random_regions_attempt f ar rnd c1 of
        Inl e \<Rightarrow> random_regions_loop f ar rnd 0 c = Some (Inl e)
      | Inr (r, accepted, c'') \<Rightarrow>
          if accepted then random_regions_loop f ar rnd 0 c = Some (Inr (r, 0 + k + 1, c''))
          else 0 + k + 1 = MAX_ATTEMPTS \<and>
               random_regions_loop f ar rnd 0 c = Some (Inr (NA_region, MAX_ATTEMPTS, c'')))"
    using random_regions_loop_cases [of 0 f ar rnd c] by (auto simp add: MAX_ATTEMPTS_def)
  then show ?thesis
    by (cases "random_regions_attempt f ar rnd c1")
       (auto simp add: random_regions_def split: prod.splits if_splits)
qed

lemma random_regions_attempts_bound:
  "random_regions f ar rnd c = Some (Inr (r, n, c')) \<Longrightarrow>
   1 \<le> n \<and> n \<le> 100 \<and> (r = NA_region \<longrightarrow> n = 100)"
  using random_regions_loop_cases [of 0 f ar rnd c]
  by (auto simp add: random_regions_def MAX_ATTEMPTS_def random_regions_attempt_def Let_def
        split: sum.splits prod.splits if_splits)

lemma random_regions_exhausted:
  assumes "rejected_attempts f ar rnd 100 c = Some c'"
  shows "random_regions f ar rnd c = Some (Inr (NA_region, 100, c'))"
proof -
  obtain k c1 where k: "k < 100" "rejected_attempts f ar rnd k c = Some c1" and
    rest: "(case random_regions_attempt f ar rnd c1 of
        Inl e \<Rightarrow> random_regions_loop f ar rnd 0 c = Some (Inl e)
      | Inr (r, accepted, c'') \<Rightarrow>
          if accepted then random_regions_loop f ar rnd 0 c = Some (Inr (r, 0 + k + 1, c''))
          else 0 + k + 1 = MAX_ATTEMPTS \<and>
               random_regions_loop f ar rnd 0 c = Some (Inr (NA_region, MAX_ATTEMPTS, c'')))"
    using random_regions_loop_cases [of 0 f ar rnd c] by (auto simp add: MAX_ATTEMPTS_def)
  have eq: "k + Suc (99 - k) = 100" using k(1) by simp
  have "rejected_attempts f ar rnd (k + Suc (99 - k)) c = Some c'"
    unfolding eq by (rule assms)
  then have "rejected_attempts f ar rnd (Suc (99 - k)) c1 = Some c'"
    unfolding rejected_attempts_add k(2) by simp
  then have next_pass: "(case random_regions_attempt f ar rnd c1 of
        Inl e \<Rightarrow> None
      | Inr (r, accepted, c'') \<Rightarrow> if accepted then None else rejected_attempts f ar rnd (99 - k) c'') = Some c'"
    by simp
  then obtain r c2 where a: "random_regions_attempt f ar rnd c1 = Inr (r, False, c2)"
    and b: "rejected_attempts f ar rnd (99 - k) c2 = Some c'"
    by (auto split: sum.splits prod.splits if_splits)
  from rest a have "k = 99" and res: "random_regions_loop f ar rnd 0 c = Some (Inr (NA_region, MAX_ATTEMPTS, c2))"
    by (auto simp add: MAX_ATTEMPTS_def)
  with b have "c2 = c'" by simp
  with res show ?thesis by (simp add: random_regions_def MAX_ATTEMPTS_def)
qed

lemma random_regions_attempt_accepted:
  assumes "random_regions_attempt f ar rnd c1 = Inr (Bed ch s e, True, c')"
  shows "\<exists>rs re. shuffle_first rnd c1 ar = Inr ((rs, re), Suc c1) \<and>
           randrange rnd (Suc c1) rs re = Inr (s, c') \<and>
           (rs, re) \<in> set ar \<and> rs \<le> s \<and> s < re \<and> e = s + fsize f \<and> e < re \<and> ch = chrom f \<and>
           \<not> check_overlap (Bed (chrom f) (start f) (fend f)) (Bed ch s e)"
proof -
  from assms obtain rs re ca where sf: "shuffle_first rnd c1 ar = Inr ((rs, re), ca)"
    by (auto simp add: random_regions_attempt_def Let_def split: sum.splits prod.splits)
  then have ne: "ar \<noteq> []" and ca: "ca = Suc c1" and pick: "(rs, re) = ar ! (rnd c1 mod length ar)"
    by (auto simp add: shuffle_first_def split: if_splits)
  from ne pick have mem: "(rs, re) \<in> set ar" by simp
  from assms sf obtain s0 where rr: "randrange rnd ca rs re = Inr (s0, c')"
    and acc: "Bed ch s e = Bed (chrom f) s0 (s0 + fsize f)" "s0 + fsize f < re"
      "\<not> check_overlap (Bed (chrom f) (start f) (fend f)) (Bed (chrom f) s0 (s0 + fsize f))"
    by (auto simp add: random_regions_attempt_def Let_def split: sum.splits prod.splits)
  from rr have lt: "rs < re" and s0: "s0 = rs + int (rnd ca mod nat (re - rs))"
    by (auto simp add: randrange_def split: if_splits)
  have "rnd ca mod nat (re - rs) < nat (re - rs)" using lt by simp
  then have "int (rnd ca mod nat (re - rs)) < re - rs" using lt by linarith
  then have range: "rs \<le> s0" "s0 < re" using s0 by simp_all
  show ?thesis using sf ca rr mem range acc by auto
qed

text \<open>
  Claim C4.  For every feature, every list of allowed regions and every tape of draws:
  when \<^verbatim>\<open>random_regions\<close> returns a region that is not the sentinel, the list is not empty,
  the region is on the feature's chromosome and as wide as the feature, it does not
  overlap the feature's own interval, and for the pair (\<open>rs\<close>, \<open>re\<close>) that the shuffle of the
  accepting pass put first, the start was drawn from that pair and the end of the region
  is strictly below \<open>re\<close>.
\<close>

theorem random_regions_accepted:
  assumes "random_regions f ar rnd c = Some (Inr (Bed ch s e, n, c'))"
  shows "ar \<noteq> [] \<and> ch = chrom f \<and> e = s + fsize f \<and>
         \<not> check_overlap (Bed (chrom f) (start f) (fend f)) (Bed ch s e) \<and>
         (\<exists>c1 rs re. shuffle_first rnd c1 ar = Inr ((rs, re), Suc c1) \<and>
            randrange rnd (Suc c1) rs re = Inr (s, c') \<and>
            (rs, re) \<in> set ar \<and> rs \<le> s \<and> s < re \<and> e < re)"
proof -
  obtain k c1 where
    rest: "(case random_regions_attempt f ar rnd c1 of
        Inl e \<Rightarrow> random_regions_loop f ar rnd 0 c = Some (Inl e)
      | Inr (r, accepted, c'') \<Rightarrow>
          if accepted then random_regions_loop f ar rnd 0 c = Some (Inr (r, 0 + k + 1, c''))
          else 0 + k + 1 = MAX_ATTEMPTS \<and>
               random_regions_loop f ar rnd 0 c = Some (Inr (NA_region, MAX_ATTEMPTS, c'')))"
    using random_regions_loop_cases [of 0 f ar rnd c] by (auto simp add: MAX_ATTEMPTS_def)
  with assms have "random_regions_attempt f ar rnd c1 = Inr (Bed ch s e, True, c')"
    by (auto simp add: random_regions_def split: sum.splits prod.splits if_splits)
  from random_regions_attempt_accepted [OF this] show ?thesis by auto
qed

theorem random_regions_accepted_witness:
  "random_regions example_feature [(10, 200), (300, 500)] count_tape 0 =
     Some (Inr (Bed ''chr1'' 11 21, 1, 2)) \<and>
   \<not> check_overlap (Bed ''chr1'' 1000 1010) (Bed ''chr1'' 11 21) \<and> (21::int) < 200"
proof -
  have run: "random_regions example_feature [(10, 200), (300, 500)] count_tape 0 =
     Some (Inr (Bed ''chr1'' 11 21, 1, 2))"
    unfolding random_regions_def
    by (subst random_regions_loop.simps)
       (simp add: random_regions_attempt_def shuffle_first_def randrange_def example_feature_def
          count_tape_def fsize_def check_overlap_def Let_def)
  from random_regions_accepted [OF run] show ?thesis using run
    by (simp add: example_feature_def)
qed

section \<open>The loop of random_flanking_regions\<close>

lemma random_flanking_loop_cases:
  "a < MAX_ATTEMPTS \<Longrightarrow>
   \<exists>k p1 c1. a + k < MAX_ATTEMPTS \<and>
     rejected_flanking_attempts bx f na right left rnd k prev c = Some (p1, c1) \<and>
     (case random_flanking_attempt bx f na right left rnd p1 c1 of
        Inl e \<Rightarrow> random_flanking_loop bx f na right left rnd a prev c = Some (Inl e)
      | Inr (flanking, cand, c') \<Rightarrow>
          if random_flanking_accept f flanking cand then
            random_flanking_loop bx f na right left rnd a prev c =
              Some (Inr (Bed (chrom f) (fst cand) (snd cand), a + k + 1, c'))
          else a + k + 1 = MAX_ATTEMPTS \<and>
               random_flanking_loop bx f na right left rnd a prev c =
                 Some (Inr (NA_region, MAX_ATTEMPTS, c')))"
proof (induction "MAX_ATTEMPTS - a" arbitrary: a prev c)
  case 0
  then show ?case by simp
next
  case (Suc m)
  show ?case
  proof (cases "random_flanking_attempt bx f na right left rnd prev c")
    case (Inl e)
    then show ?thesis using Suc.prems
      by (intro exI[of _ 0] exI[of _ prev] exI[of _ c]) (simp add: random_flanking_loop.simps)
  next
    case (Inr t)
    obtain flanking cand c' where t: "t = (flanking, cand, c')" by (cases t) auto
    show ?thesis
    proof (cases "random_flanking_accept f flanking cand \<or> a + 1 = MAX_ATTEMPTS")
      case True
      then show ?thesis using Suc.prems Inr t
        by (intro exI[of _ 0] exI[of _ prev] exI[of _ c]) (auto simp add: random_flanking_loop.simps)
    next
      case False
      then have lt: "a + 1 < MAX_ATTEMPTS" and na: "\<not> random_flanking_accept f flanking cand"
        using Suc.prems by auto
      have m: "m = MAX_ATTEMPTS - (a + 1)" using Suc.hyps(2) by simp
      from Suc.hyps(1)[OF m lt, of "Some cand" c'] obtain k p1 c1 where
        k: "a + 1 + k < MAX_ATTEMPTS"
           "rejected_flanking_attempts bx f na right left rnd k (Some cand) c' = Some (p1, c1)" and
        rest: "(case random_flanking_attempt bx f na right left rnd p1 c1 of
          Inl e \<Rightarrow> random_flanking_loop bx f na right left rnd (a + 1) (Some cand) c' = Some (Inl e)
        | Inr (flanking, cand', c'') \<Rightarrow>
            if random_flanking_accept f flanking cand' then
              random_flanking_loop bx f na right left rnd (a + 1) (Some cand) c' =
                Some (Inr (Bed (chrom f) (fst cand') (snd cand'), a + 1 + k + 1, c''))
            else a + 1 + k + 1 = MAX_ATTEMPTS \<and>
                 random_flanking_loop bx f na right left rnd (a + 1) (Some cand) c' =
                   Some (Inr (NA_region, MAX_ATTEMPTS, c'')))"
        by blast
      have unfold: "random_flanking_loop bx f na right left rnd a prev c =
                    random_flanking_loop bx f na right left rnd (a + 1) (Some cand) c'"
        using Inr t na False by (subst random_flanking_loop.simps) simp
      have rej: "rejected_flanking_attempts bx f na right left rnd (Suc k) prev c = Some (p1, c1)"
        using Inr t na k(2) by simp
      show ?thesis
        apply (rule exI[of _ "Suc k"], rule exI[of _ p1], rule exI[of _ c1])
        using k(1) rej rest unfold
        by (auto split: sum.splits prod.splits if_splits)
    qed
  qed
qed

lemma rejected_flanking_attempts_add:
  "rejected_flanking_attempts bx f na right left rnd (k + j) prev c =
     (case rejected_flanking_attempts bx f na right left rnd k prev c of
        None \<Rightarrow> None
      | Some (p1, c1) \<Rightarrow> rejected_flanking_attempts bx f na right left rnd j p1 c1)"
  by (induction k arbitrary: prev c) (auto split: sum.splits)

lemma random_flanking_loop_returns:
  "\<exists>res. random_flanking_loop bx f na right left rnd 0 prev c = Some res"
proof -
  obtain k p1 c1 where
    rest: "(case random_flanking_attempt bx f na right left rnd p1 c1 of
        Inl e \<Rightarrow> random_flanking_loop bx f na right left rnd 0 prev c = Some (Inl e)
      | Inr (flanking, cand, c') \<Rightarrow>
          if random_flanking_accept f flanking cand then
            random_flanking_loop bx f na right left rnd 0 prev c =
              Some (Inr (Bed (chrom f) (fst cand) (snd cand), 0 + k + 1, c'))
          else 0 + k + 1 = MAX_ATTEMPTS \<and>
               random_flanking_loop bx f na right left rnd 0 prev c =
                 Some (Inr (NA_region, MAX_ATTEMPTS, c')))"
    using random_flanking_loop_cases [of 0 bx f na right left rnd prev c]
    by (auto simp add: MAX_ATTEMPTS_def)
  then show ?thesis
    by (cases "random_flanking_attempt bx f na right left rnd p1 c1")
       (auto split: prod.splits if_splits)
qed

lemma random_flanking_regions_returns:
  "\<exists>res. random_flanking_regions bx f na window_r window_l rnd c = Some res"
  by (simp add: random_flanking_regions_def case_prod_beta random_flanking_loop_returns)

lemma random_flanking_loop_bound:
  assumes "random_flanking_loop bx f na right left rnd 0 prev c = Some (Inr (r, n, c'))"
  shows "1 \<le> n \<and> n \<le> 100 \<and> (r = NA_region \<longrightarrow> n = 100)"
proof -
  obtain k p1 c1 where k: "k < 100" and
    rest: "(case random_flanking_attempt bx f na right left rnd p1 c1 of
        Inl e \<Rightarrow> random_flanking_loop bx f na right left rnd 0 prev c = Some (Inl e)
      | Inr (flanking, cand, c') \<Rightarrow>
          if random_flanking_accept f flanking cand then
            random_flanking_loop bx f na right left rnd 0 prev c =
              Some (Inr (Bed (chrom f) (fst cand) (snd cand), 0 + k + 1, c'))
          else 0 + k + 1 = MAX_ATTEMPTS \<and>
               random_flanking_loop bx f na right left rnd 0 prev c =
                 Some (Inr (NA_region, MAX_ATTEMPTS, c')))"
    using random_flanking_loop_cases [of 0 bx f na right left rnd prev c]
    by (auto simp add: MAX_ATTEMPTS_def)
  then show ?thesis using assms k
    by (cases "random_flanking_attempt bx f na right left rnd p1 c1")
       (auto simp add: MAX_ATTEMPTS_def split: prod.splits if_splits)
qed

lemma random_flanking_regions_bound:
  "random_flanking_regions bx f na window_r window_l rnd c = Some (Inr (r, n, c')) \<Longrightarrow>
   1 \<le> n \<and> n \<le> 100 \<and> (r = NA_region \<longrightarrow> n = 100)"
  using random_flanking_loop_bound
  by (simp add: random_flanking_regions_def split: prod.splits)

lemma random_flanking_loop_exhausted:
  assumes "rejected_flanking_attempts bx f na right left rnd 100 prev c = Some (p, c')"
  shows "random_flanking_loop bx f na right left rnd 0 prev c = Some (Inr (NA_region, 100, c'))"
proof -
  obtain k p1 c1 where k: "k < 100"
      "rejected_flanking_attempts bx f na right left rnd k prev c = Some (p1, c1)" and
    rest: "(case random_flanking_attempt bx f na right left rnd p1 c1 of
        Inl e \<Rightarrow> random_flanking_loop bx f na right left rnd 0 prev c = Some (Inl e)
      | Inr (flanking, cand, c') \<Rightarrow>
          if random_flanking_accept f flanking cand then
            random_flanking_loop bx f na right left rnd 0 prev c =
              Some (Inr (Bed (chrom f) (fst cand) (snd cand), 0 + k + 1, c'))
          else 0 + k + 1 = MAX_ATTEMPTS \<and>
               random_flanking_loop bx f na right left rnd 0 prev c =
                 Some (Inr (NA_region, MAX_ATTEMPTS, c')))"
    using random_flanking_loop_cases [of 0 bx f na right left rnd prev c]
    by (auto simp add: MAX_ATTEMPTS_def)
  have eq: "k + Suc (99 - k) = 100" using k(1) by simp
  have "rejected_flanking_attempts bx f na right left rnd (k + Suc (99 - k)) prev c = Some (p, c')"
    unfolding eq by (rule assms)
  then have "rejected_flanking_attempts bx f na right left rnd (Suc (99 - k)) p1 c1 = Some (p, c')"
    unfolding rejected_flanking_attempts_add k(2) by simp
  then obtain flanking cand c2 where
    a: "random_flanking_attempt bx f na right left rnd p1 c1 = Inr (flanking, cand, c2)"
       "\<not> random_flanking_accept f flanking cand"
    and b: "rejected_flanking_attempts bx f na right left rnd (99 - k) (Some cand) c2 = Some (p, c')"
    by (auto split: sum.splits prod.splits if_splits)
  from rest a have "k = 99" and
    res: "random_flanking_loop bx f na right left rnd 0 prev c = Some (Inr (NA_region, MAX_ATTEMPTS, c2))"
    by (auto simp add: MAX_ATTEMPTS_def)
  with b have "c2 = c'" by simp
  with res show ?thesis by (simp add: MAX_ATTEMPTS_def)
qed

lemma random_flanking_regions_exhausted:
  "rejected_flanking_attempts bx f na (fst (flanking_windows f window_r window_l))
     (snd (flanking_windows f window_r window_l)) rnd 100 None c = Some (p, c') \<Longrightarrow>
   random_flanking_regions bx f na window_r window_l rnd c = Some (Inr (NA_region, 100, c'))"
  unfolding random_flanking_regions_def Let_def case_prod_beta
  by (rule random_flanking_loop_exhausted)

section \<open>Termination of the samplers\<close>

text \<open>
  Claim C5.  For every input and every tape of draws, \<^verbatim>\<open>random_regions\<close> and
  \<^verbatim>\<open>random_flanking_regions\<close> come to an end, with a region or with an exception: the run is
  never \<^term>\<open>None\<close>.  When they return a
  region, the loop made between 1 and 100 passes, and the sentinel is returned only after
  the 100th.  When the first 100 passes each end in a rejected candidate, the result is
  the sentinel \<^verbatim>\<open>"NA\tNA\tNA"\<close>.
\<close>

theorem samplers_terminate:
  "(\<exists>res. random_regions f allowed_regions rnd c = Some res) \<and>
   (\<forall>r n c'. random_regions f allowed_regions rnd c = Some (Inr (r, n, c')) \<longrightarrow>
      1 \<le> n \<and> n \<le> 100 \<and> (r = NA_region \<longrightarrow> n = 100)) \<and>
   (\<forall>c'. rejected_attempts f allowed_regions rnd 100 c = Some c' \<longrightarrow>
      random_regions f allowed_regions rnd c = Some (Inr (NA_region, 100, c'))) \<and>
   (\<exists>res. random_flanking_regions bedextract f not_allowed window_r window_l rnd c = Some res) \<and>
   (\<forall>r n c'. random_flanking_regions bedextract f not_allowed window_r window_l rnd c =
        Some (Inr (r, n, c')) \<longrightarrow>
      1 \<le> n \<and> n \<le> 100 \<and> (r = NA_region \<longrightarrow> n = 100)) \<and>
   (\<forall>p c'. rejected_flanking_attempts bedextract f not_allowed
        (fst (flanking_windows f window_r window_l)) (snd (flanking_windows f window_r window_l))
        rnd 100 None c = Some (p, c') \<longrightarrow>
      random_flanking_regions bedextract f not_allowed window_r window_l rnd c =
        Some (Inr (NA_region, 100, c')))"
  apply (rule conjI, rule random_regions_returns)
  apply (rule conjI, intro allI impI, erule random_regions_attempts_bound)
  apply (rule conjI, intro allI impI, erule random_regions_exhausted)
  apply (rule conjI, rule random_flanking_regions_returns)
  apply (rule conjI, intro allI impI, erule random_flanking_regions_bound)
  apply (intro allI impI, erule random_flanking_regions_exhausted)
  done

lemma narrow_region_rejected:
  "rejected_attempts example_feature [(0, 5)] rnd k c = Some (c + 2 * k)"
proof (induction k arbitrary: c)
  case 0
  show ?case by simp
next
  case (Suc k)
  have "rnd (Suc c) mod 5 < 5" by simp
  then have "\<not> int (rnd (Suc c) mod 5) + 10 < 5" by linarith
  then show ?case using Suc [of "Suc (Suc c)"]
    by (simp add: random_regions_attempt_def shuffle_first_def randrange_def example_feature_def
          fsize_def Let_def)
qed

lemma narrow_windows: "flanking_windows example_feature 5 5 = ((1011, 1015), (995, 999))"
  by (simp add: flanking_windows_def sorted2_def example_feature_def Let_def)

lemma narrow_windows_rejected:
  "rejected_flanking_attempts overlapping_lines example_feature [] (1011, 1015) (995, 999)
     zero_tape k prev c = Some (if k = 0 then prev else Some (1011, 1021), c + 2 * k)"
proof (induction k arbitrary: prev c)
  case 0
  show ?case by simp
next
  case (Suc k)
  have att: "random_flanking_attempt overlapping_lines example_feature [] (1011, 1015) (995, 999)
     zero_tape prev c = Inr ((1011, 1015), (1011, 1021), Suc (Suc c))"
    by (simp add: random_flanking_attempt_def choice2_def zero_tape_def run_bedextract_def
          overlapping_lines_def randrange_def example_feature_def fsize_def Let_def)
  have rej: "\<not> random_flanking_accept example_feature (1011, 1015) (1011, 1021)"
    by (simp add: random_flanking_accept_def Let_def)
  show ?case using Suc [of "Some (1011, 1021)" "Suc (Suc c)"] att rej by simp
qed

theorem samplers_terminate_witness:
  "rejected_attempts example_feature [(0, 5)] count_tape 100 0 = Some 200 \<and>
   random_regions example_feature [(0, 5)] count_tape 0 = Some (Inr (NA_region, 100, 200)) \<and>
   rejected_flanking_attempts overlapping_lines example_feature []
     (fst (flanking_windows example_feature 5 5)) (snd (flanking_windows example_feature 5 5))
     zero_tape 100 None 0 = Some (Some (1011, 1021), 200) \<and>
   random_flanking_regions overlapping_lines example_feature [] 5 5 zero_tape 0 =
     Some (Inr (NA_region, 100, 200))"
proof -
  have a: "rejected_attempts example_feature [(0, 5)] count_tape 100 0 = Some 200"
    by (simp add: narrow_region_rejected)
  have b: "rejected_flanking_attempts overlapping_lines example_feature []
     (fst (flanking_windows example_feature 5 5)) (snd (flanking_windows example_feature 5 5))
     zero_tape 100 None 0 = Some (Some (1011, 1021), 200)"
    by (simp add: narrow_windows narrow_windows_rejected)
  have c: "random_regions example_feature [(0, 5)] count_tape 0 = Some (Inr (NA_region, 100, 200))"
    using a samplers_terminate [of example_feature "[(0, 5)]" count_tape 0 overlapping_lines "[]" 5 5]
    by (elim conjE allE [where x = 200] impE)
  have d: "random_flanking_regions overlapping_lines example_feature [] 5 5 zero_tape 0 =
     Some (Inr (NA_region, 100, 200))"
    using b samplers_terminate [of example_feature "[(0, 5)]" zero_tape 0 overlapping_lines "[]" 5 5]
    by (elim conjE) (erule allE [where x = "Some (1011, 1021)"], erule allE [where x = 200], erule impE)
  show ?thesis using a b c d by (intro conjI)
qed

section \<open>The outer loops of the random simulations\<close>

lemma intragenic_loop_skip:
  "empty_intragenic_cycles bx f ar q rnd k c = Some c1 \<Longrightarrow> a + k < MAX_ATTEMPTS \<Longrightarrow>
   random_intragenic_loop bx f ar q rnd a c = random_intragenic_loop bx f ar q rnd (a + k) c1"
proof (induction k arbitrary: a c)
  case 0
  then show ?case by simp
next
  case (Suc k)
  from Suc.prems(1) obtain r n c' where
    rr: "random_regions f ar rnd c = Some (Inr (r, n, c'))" and
    em: "run_bedextract bx r q = []" and
    rest: "empty_intragenic_cycles bx f ar q rnd k c' = Some c1"
    by (auto split: option.splits sum.splits prod.splits if_splits)
  have "random_intragenic_loop bx f ar q rnd a c = random_intragenic_loop bx f ar q rnd (a + 1) c'"
    using rr em Suc.prems(2) by (subst random_intragenic_loop.simps) simp
  also have "\<dots> = random_intragenic_loop bx f ar q rnd (a + 1 + k) c1"
    using Suc.IH [OF rest, of "a + 1"] Suc.prems(2) by simp
  finally show ?case by simp
qed

lemma intragenic_loop_first_score:
  assumes "k < 100" and "empty_intragenic_cycles bx f ar q rnd k c = Some c1"
    and "random_regions f ar rnd c1 = Some (Inr (r, n, c2))" and "run_bedextract bx r q \<noteq> []"
  shows "random_intragenic_loop bx f ar q rnd 0 c =
           Some (Inr (calculate_mean_score (run_bedextract bx r q), k + 1, c2))"
proof -
  have "random_intragenic_loop bx f ar q rnd 0 c = random_intragenic_loop bx f ar q rnd (0 + k) c1"
    using assms(1) by (intro intragenic_loop_skip [OF assms(2)]) (simp add: MAX_ATTEMPTS_def)
  also have "\<dots> = Some (Inr (calculate_mean_score (run_bedextract bx r q), k + 1, c2))"
    using assms(3,4) by (subst random_intragenic_loop.simps) simp
  finally show ?thesis .
qed

lemma empty_intragenic_cycles_add:
  "empty_intragenic_cycles bx f ar q rnd (k + j) c =
     (case empty_intragenic_cycles bx f ar q rnd k c of
        None \<Rightarrow> None
      | Some c1 \<Rightarrow> empty_intragenic_cycles bx f ar q rnd j c1)"
  by (induction k arbitrary: c) (auto split: option.splits sum.splits)

lemma intragenic_loop_all_empty:
  assumes "empty_intragenic_cycles bx f ar q rnd 100 c = Some c'"
  shows "random_intragenic_loop bx f ar q rnd 0 c = Some (Inr (NA, 100, c'))"
proof -
  have eq: "99 + Suc 0 = (100::nat)" by simp
  have "empty_intragenic_cycles bx f ar q rnd (99 + Suc 0) c = Some c'"
    unfolding eq by (rule assms)
  then obtain c1 where
    pre: "empty_intragenic_cycles bx f ar q rnd 99 c = Some c1" and
    last: "empty_intragenic_cycles bx f ar q rnd (Suc 0) c1 = Some c'"
    unfolding empty_intragenic_cycles_add by (auto split: option.splits)
  from last obtain r n where
    rr: "random_regions f ar rnd c1 = Some (Inr (r, n, c'))" and
    em: "run_bedextract bx r q = []"
    by (auto split: option.splits sum.splits prod.splits if_splits)
  have "random_intragenic_loop bx f ar q rnd 0 c = random_intragenic_loop bx f ar q rnd (0 + 99) c1"
    by (intro intragenic_loop_skip [OF pre]) (simp add: MAX_ATTEMPTS_def)
  also have "\<dots> = Some (Inr (NA, 100, c'))"
    using rr em
    by (subst random_intragenic_loop.simps) (simp add: MAX_ATTEMPTS_def calculate_mean_score_def)
  finally show ?thesis .
qed

lemma intragenic_loop_returns:
  "a < MAX_ATTEMPTS \<Longrightarrow> \<exists>res. random_intragenic_loop bx f ar q rnd a c = Some res"
proof (induction "MAX_ATTEMPTS - a" arbitrary: a c)
  case 0
  then show ?case by simp
next
  case (Suc m)
  obtain res where rr: "random_regions f ar rnd c = Some res"
    using random_regions_returns [of f ar rnd c] by blast
  show ?case
  proof (cases res)
    case (Inl e)
    then show ?thesis using rr by (subst random_intragenic_loop.simps) simp
  next
    case (Inr t)
    obtain r n c' where t: "t = (r, n, c')" by (cases t) auto
    show ?thesis
    proof (cases "run_bedextract bx r q \<noteq> [] \<or> a + 1 = MAX_ATTEMPTS")
      case True
      then show ?thesis using rr Inr t by (subst random_intragenic_loop.simps) (auto simp add: Let_def)
    next
      case False
      then have lt: "a + 1 < MAX_ATTEMPTS" using Suc.prems by simp
      have m: "m = MAX_ATTEMPTS - (a + 1)" using Suc.hyps(2) by simp
      from Suc.hyps(1) [OF m lt, of c'] show ?thesis
        using rr Inr t False by (subst random_intragenic_loop.simps) simp
    qed
  qed
qed

lemma intragenic_simulation_loop:
  assumes "split_on CHR ''_'' (name f) = n0 # gene # transcript # rest"
    and "d (gene, transcript, chrom f) = Some ar"
  shows "random_intragenic_simulation bx f d q rnd c =
           (case random_intragenic_loop bx f ar q rnd 0 c of
              None \<Rightarrow> None
            | Some (Inl e) \<Rightarrow> Some (Inl e)
            | Some (Inr (score, n, c')) \<Rightarrow> Some (Inr (score, c')))"
proof -
  have "length (split_on CHR ''_'' (name f)) = 3 + length rest" using assms(1) by simp
  then have "0 < count_list (name f) CHR ''_''" by (simp add: length_split_on)
  then have m: "CHR ''_'' \<in> set (name f)" by (rule count_list_pos_mem)
  show ?thesis using m assms
    by (simp add: random_intragenic_simulation_def py_index_def Let_def)
qed

lemma flanking_simulation_loop_skip:
  "empty_flanking_cycles bx f na q wr wl rnd k c = Some c1 \<Longrightarrow> a + k < MAX_ATTEMPTS \<Longrightarrow>
   random_flanking_simulation_loop bx f na q wr wl rnd a c =
   random_flanking_simulation_loop bx f na q wr wl rnd (a + k) c1"
proof (induction k arbitrary: a c)
  case 0
  then show ?case by simp
next
  case (Suc k)
  from Suc.prems(1) obtain r n c' where
    rr: "random_flanking_regions bx f na wr wl rnd c = Some (Inr (r, n, c'))" and
    em: "run_bedextract bx r q = []" and
    rest: "empty_flanking_cycles bx f na q wr wl rnd k c' = Some c1"
    by (auto split: option.splits sum.splits prod.splits if_splits)
  have "random_flanking_simulation_loop bx f na q wr wl rnd a c =
        random_flanking_simulation_loop bx f na q wr wl rnd (a + 1) c'"
    using rr em Suc.prems(2) by (subst random_flanking_simulation_loop.simps) simp
  also have "\<dots> = random_flanking_simulation_loop bx f na q wr wl rnd (a + 1 + k) c1"
    using Suc.IH [OF rest, of "a + 1"] Suc.prems(2) by simp
  finally show ?case by simp
qed

lemma flanking_simulation_loop_first_score:
  assumes "k < 100" and "empty_flanking_cycles bx f na q wr wl rnd k c = Some c1"
    and "random_flanking_regions bx f na wr wl rnd c1 = Some (Inr (r, n, c2))"
    and "run_bedextract bx r q \<noteq> []"
  shows "random_flanking_simulation_loop bx f na q wr wl rnd 0 c =
           Some (Inr (calculate_mean_score (run_bedextract bx r q), k + 1, c2))"
proof -
  have "random_flanking_simulation_loop bx f na q wr wl rnd 0 c =
        random_flanking_simulation_loop bx f na q wr wl rnd (0 + k) c1"
    using assms(1) by (intro flanking_simulation_loop_skip [OF assms(2)]) (simp add: MAX_ATTEMPTS_def)
  also have "\<dots> = Some (Inr (calculate_mean_score (run_bedextract bx r q), k + 1, c2))"
    using assms(3,4) by (subst random_flanking_simulation_loop.simps) simp
  finally show ?thesis .
qed

lemma empty_flanking_cycles_add:
  "empty_flanking_cycles bx f na q wr wl rnd (k + j) c =
     (case empty_flanking_cycles bx f na q wr wl rnd k c of
        None \<Rightarrow> None
      | Some c1 \<Rightarrow> empty_flanking_cycles bx f na q wr wl rnd j c1)"
  by (induction k arbitrary: c) (auto split: option.splits sum.splits)

lemma flanking_simulation_loop_all_empty:
  assumes "empty_flanking_cycles bx f na q wr wl rnd 100 c = Some c'"
  shows "random_flanking_simulation_loop bx f na q wr wl rnd 0 c = Some (Inr (NA, 100, c'))"
proof -
  have eq: "99 + Suc 0 = (100::nat)" by simp
  have "empty_flanking_cycles bx f na q wr wl rnd (99 + Suc 0) c = Some c'"
    unfolding eq by (rule assms)
  then obtain c1 where
    pre: "empty_flanking_cycles bx f na q wr wl rnd 99 c = Some c1" and
    last: "empty_flanking_cycles bx f na q wr wl rnd (Suc 0) c1 = Some c'"
    unfolding empty_flanking_cycles_add by (auto split: option.splits)
  from last obtain r n where
    rr: "random_flanking_regions bx f na wr wl rnd c1 = Some (Inr (r, n, c'))" and
    em: "run_bedextract bx r q = []"
    by (auto split: option.splits sum.splits prod.splits if_splits)
  have "random_flanking_simulation_loop bx f na q wr wl rnd 0 c =
        random_flanking_simulation_loop bx f na q wr wl rnd (0 + 99) c1"
    by (intro flanking_simulation_loop_skip [OF pre]) (simp add: MAX_ATTEMPTS_def)
  also have "\<dots> = Some (Inr (NA, 100, c'))"
    using rr em
    by (subst random_flanking_simulation_loop.simps)
       (simp add: MAX_ATTEMPTS_def calculate_mean_score_def)
  finally show ?thesis .
qed

lemma flanking_simulation_loop_returns:
  "a < MAX_ATTEMPTS \<Longrightarrow> \<exists>res. random_flanking_simulation_loop bx f na q wr wl rnd a c = Some res"
proof (induction "MAX_ATTEMPTS - a" arbitrary: a c)
  case 0
  then show ?case by simp
next
  case (Suc m)
  obtain res where rr: "random_flanking_regions bx f na wr wl rnd c = Some res"
    using random_flanking_regions_returns [of bx f na wr wl rnd c] by blast
  show ?case
  proof (cases res)
    case (Inl e)
    then show ?thesis using rr by (subst random_flanking_simulation_loop.simps) simp
  next
    case (Inr t)
    obtain r n c' where t: "t = (r, n, c')" by (cases t) auto
    show ?thesis
    proof (cases "run_bedextract bx r q \<noteq> [] \<or> a + 1 = MAX_ATTEMPTS")
      case True
      then show ?thesis using rr Inr t by (subst random_flanking_simulation_loop.simps) (auto simp add: Let_def)
    next
      case False
      then have lt: "a + 1 < MAX_ATTEMPTS" using Suc.prems by simp
      have m: "m = MAX_ATTEMPTS - (a + 1)" using Suc.hyps(2) by simp
      from Suc.hyps(1) [OF m lt, of c'] show ?thesis
        using rr Inr t False by (subst random_flanking_simulation_loop.simps) simp
    qed
  qed
qed

text \<open>
  Claim C6.  The outer loops of \<^verbatim>\<open>random_intragenic_simulation\<close> (for a name that decodes to
  a key present in the dictionary) and of \<^verbatim>\<open>random_flanking_simulation\<close> always return.
  Every pass samples a new region at the cursor the pass before left and queries the score
  store.  When fewer than 100 passes had an empty query and the next pass has a non-empty
  one, the result is the mean score of that query; when 100 passes had an empty query,
  the result is \<^verbatim>\<open>"NA"\<close>, the value of \<^verbatim>\<open>calculate_mean_score\<close> on the empty result.
\<close>

theorem outer_loops:
  assumes "split_on CHR ''_'' (name f) = n0 # gene # transcript # rest"
    and "allowed_regions_dict (gene, transcript, chrom f) = Some allowed_regions"
  shows
    "(\<exists>res. random_intragenic_simulation bedextract f allowed_regions_dict query_bed rnd c = Some res) \<and>
     (\<forall>k c1 r n c2.
        k < 100 \<and>
        empty_intragenic_cycles bedextract f allowed_regions query_bed rnd k c = Some c1 \<and>
        random_regions f allowed_regions rnd c1 = Some (Inr (r, n, c2)) \<and>
        run_bedextract bedextract r query_bed \<noteq> [] \<longrightarrow>
        random_intragenic_simulation bedextract f allowed_regions_dict query_bed rnd c =
          Some (Inr (calculate_mean_score (run_bedextract bedextract r query_bed), c2))) \<and>
     (\<forall>c'. empty_intragenic_cycles bedextract f allowed_regions query_bed rnd 100 c = Some c' \<longrightarrow>
        random_intragenic_simulation bedextract f allowed_regions_dict query_bed rnd c =
          Some (Inr (NA, c'))) \<and>
     (\<exists>res. random_flanking_simulation bedextract f not_allowed query_bed window_r window_l rnd c =
        Some res) \<and>
     (\<forall>k c1 r n c2.
        k < 100 \<and>
        empty_flanking_cycles bedextract f not_allowed query_bed window_r window_l rnd k c = Some c1 \<and>
        random_flanking_regions bedextract f not_allowed window_r window_l rnd c1 =
          Some (Inr (r, n, c2)) \<and>
        run_bedextract bedextract r query_bed \<noteq> [] \<longrightarrow>
        random_flanking_simulation bedextract f not_allowed query_bed window_r window_l rnd c =
          Some (Inr (calculate_mean_score (run_bedextract bedextract r query_bed), c2))) \<and>
     (\<forall>c'. empty_flanking_cycles bedextract f not_allowed query_bed window_r window_l rnd 100 c =
          Some c' \<longrightarrow>
        random_flanking_simulation bedextract f not_allowed query_bed window_r window_l rnd c =
          Some (Inr (NA, c')))"
proof -
  have sim: "random_intragenic_simulation bedextract f allowed_regions_dict query_bed rnd c =
           (case random_intragenic_loop bedextract f allowed_regions query_bed rnd 0 c of
              None \<Rightarrow> None
            | Some (Inl e) \<Rightarrow> Some (Inl e)
            | Some (Inr (score, n, c')) \<Rightarrow> Some (Inr (score, c')))"
    using assms by (rule intragenic_simulation_loop)
  have i1: "\<exists>res. random_intragenic_simulation bedextract f allowed_regions_dict query_bed rnd c = Some res"
    using intragenic_loop_returns [of 0 bedextract f allowed_regions query_bed rnd c]
    by (auto simp add: sim MAX_ATTEMPTS_def split: sum.splits)
  have i2: "random_intragenic_simulation bedextract f allowed_regions_dict query_bed rnd c =
          Some (Inr (calculate_mean_score (run_bedextract bedextract r query_bed), c2))"
    if "k < 100 \<and>
        empty_intragenic_cycles bedextract f allowed_regions query_bed rnd k c = Some c1 \<and>
        random_regions f allowed_regions rnd c1 = Some (Inr (r, n, c2)) \<and>
        run_bedextract bedextract r query_bed \<noteq> []" for k c1 r n c2
    using that intragenic_loop_first_score [of k bedextract f allowed_regions query_bed rnd c c1 r n c2]
    by (simp add: sim)
  have i3: "random_intragenic_simulation bedextract f allowed_regions_dict query_bed rnd c =
          Some (Inr (NA, c'))"
    if "empty_intragenic_cycles bedextract f allowed_regions query_bed rnd 100 c = Some c'" for c'
    using intragenic_loop_all_empty [OF that] by (simp add: sim)
  have f1: "\<exists>res. random_flanking_simulation bedextract f not_allowed query_bed window_r window_l rnd c =
        Some res"
    using flanking_simulation_loop_returns [of 0 bedextract f not_allowed query_bed window_r window_l rnd c]
    by (auto simp add: random_flanking_simulation_def MAX_ATTEMPTS_def split: sum.splits)
  have f2: "random_flanking_simulation bedextract f not_allowed query_bed window_r window_l rnd c =
          Some (Inr (calculate_mean_score (run_bedextract bedextract r query_bed), c2))"
    if "k < 100 \<and>
        empty_flanking_cycles bedextract f not_allowed query_bed window_r window_l rnd k c = Some c1 \<and>
        random_flanking_regions bedextract f not_allowed window_r window_l rnd c1 =
          Some (Inr (r, n, c2)) \<and>
        run_bedextract bedextract r query_bed \<noteq> []" for k c1 r n c2
    using that flanking_simulation_loop_first_score
      [of k bedextract f not_allowed query_bed window_r window_l rnd c c1 r n c2]
    by (simp add: random_flanking_simulation_def)
  have f3: "random_flanking_simulation bedextract f not_allowed query_bed window_r window_l rnd c =
          Some (Inr (NA, c'))"
    if "empty_flanking_cycles bedextract f not_allowed query_bed window_r window_l rnd 100 c =
          Some c'" for c'
    using flanking_simulation_loop_all_empty [OF that] by (simp add: random_flanking_simulation_def)
  show ?thesis
    apply (rule conjI, rule i1)
    apply (rule conjI, intro allI impI, erule i2)
    apply (rule conjI, intro allI impI, erule i3)
    apply (rule conjI, rule f1)
    apply (rule conjI, intro allI impI, erule f2)
    apply (intro allI impI, erule f3)
    done
qed

lemma wide_region_run:
  "random_regions example_feature [(10, 200)] zero_tape c = Some (Inr (Bed ''chr1'' 10 20, 1, c + 2))"
  unfolding random_regions_def
  by (subst random_regions_loop.simps)
     (simp add: random_regions_attempt_def shuffle_first_def randrange_def example_feature_def
        zero_tape_def fsize_def check_overlap_def Let_def)

lemma late_tape_runs:
  "random_regions example_feature [(10, 200)] late_tape 0 = Some (Inr (Bed ''chr1'' 10 20, 1, 2))"
  "random_regions example_feature [(10, 200)] late_tape 2 = Some (Inr (Bed ''chr1'' 95 105, 1, 4))"
  unfolding random_regions_def
  by (subst random_regions_loop.simps,
      simp add: random_regions_attempt_def shuffle_first_def randrange_def example_feature_def
        late_tape_def fsize_def check_overlap_def Let_def)+

lemma wide_region_empty_cycles:
  "empty_intragenic_cycles overlapping_lines example_feature [(10, 200)] [] zero_tape k c =
     Some (c + 2 * k)"
  by (induction k arbitrary: c)
     (simp_all add: wide_region_run run_bedextract_def overlapping_lines_def)

lemma wide_window_run:
  "random_flanking_regions overlapping_lines example_feature [] 10000 10000 zero_tape c =
     Some (Inr (Bed ''chr1'' 1011 1021, 1, c + 2))"
proof -
  have w: "flanking_windows example_feature 10000 10000 = ((1011, 11010), (0, 999))"
    by (simp add: flanking_windows_def sorted2_def example_feature_def Let_def)
  have att: "random_flanking_attempt overlapping_lines example_feature [] (1011, 11010) (0, 999)
     zero_tape None c = Inr ((1011, 11010), (1011, 1021), Suc (Suc c))"
    by (simp add: random_flanking_attempt_def choice2_def zero_tape_def run_bedextract_def
          overlapping_lines_def randrange_def example_feature_def fsize_def Let_def)
  have ch: "chrom example_feature = ''chr1''"
    by (simp add: example_feature_def)
  have acc: "random_flanking_accept example_feature (1011, 11010) (1011, 1021)"
    by (simp add: random_flanking_accept_def check_overlap_def example_feature_def Let_def)
  show ?thesis
    unfolding random_flanking_regions_def w
    by (subst random_flanking_loop.simps) (simp add: att acc ch)
qed

lemma wide_window_empty_cycles:
  "empty_flanking_cycles overlapping_lines example_feature [] [] 10000 10000 zero_tape k c =
     Some (c + 2 * k)"
  by (induction k arbitrary: c)
     (simp_all add: wide_window_run run_bedextract_def overlapping_lines_def)

theorem outer_loops_witness:
  "split_on CHR ''_'' (name example_feature) = ''mir'' # ''ENSG1'' # ''ENST1'' # [] \<and>
   example_dict (''ENSG1'', ''ENST1'', chrom example_feature) = Some [(10, 200)] \<and>
   empty_intragenic_cycles overlapping_lines example_feature [(10, 200)]
     [BedLine ''chr1'' 100 101 ''id-1'' 3] late_tape 1 0 = Some 2 \<and>
   random_regions example_feature [(10, 200)] late_tape 2 = Some (Inr (Bed ''chr1'' 95 105, 1, 4)) \<and>
   random_intragenic_simulation overlapping_lines example_feature example_dict
     [BedLine ''chr1'' 100 101 ''id-1'' 3] late_tape 0 = Some (Inr (Score 3, 4)) \<and>
   random_intragenic_simulation overlapping_lines example_feature example_dict [] zero_tape 0 =
     Some (Inr (NA, 200)) \<and>
   random_flanking_simulation overlapping_lines example_feature []
     [BedLine ''chr1'' 1015 1016 ''id-2'' 4] 10000 10000 zero_tape 0 = Some (Inr (Score 4, 2)) \<and>
   random_flanking_simulation overlapping_lines example_feature [] [] 10000 10000 zero_tape 0 =
     Some (Inr (NA, 200))"
proof -
  have nm: "split_on CHR ''_'' (name example_feature) = ''mir'' # ''ENSG1'' # ''ENST1'' # []"
    by (simp add: example_feature_def)
  have key: "example_dict (''ENSG1'', ''ENST1'', chrom example_feature) = Some [(10, 200)]"
    by (simp add: example_dict_def example_feature_def)
  have cyc: "empty_intragenic_cycles overlapping_lines example_feature [(10, 200)]
     [BedLine ''chr1'' 100 101 ''id-1'' 3] late_tape 1 0 = Some 2"
    by (simp add: late_tape_runs run_bedextract_def overlapping_lines_def)
  have hit: "run_bedextract overlapping_lines (Bed ''chr1'' 95 105)
     [BedLine ''chr1'' 100 101 ''id-1'' 3] = [BedLine ''chr1'' 100 101 ''id-1'' 3]"
    by (simp add: run_bedextract_def overlapping_lines_def)
  have hit2: "run_bedextract overlapping_lines (Bed ''chr1'' 1011 1021)
     [BedLine ''chr1'' 1015 1016 ''id-2'' 4] = [BedLine ''chr1'' 1015 1016 ''id-2'' 4]"
    by (simp add: run_bedextract_def overlapping_lines_def)
  have m1: "calculate_mean_score [BedLine ''chr1'' 100 101 ''id-1'' 3] = Score 3"
    and m2: "calculate_mean_score [BedLine ''chr1'' 1015 1016 ''id-2'' 4] = Score 4"
    by (simp_all add: calculate_mean_score_def mean_def)
  have e1: "empty_intragenic_cycles overlapping_lines example_feature [(10, 200)] [] zero_tape 100 0 =
     Some 200"
    by (simp add: wide_region_empty_cycles)
  have e2: "empty_flanking_cycles overlapping_lines example_feature [] [] 10000 10000 zero_tape 100 0 =
     Some 200"
    by (simp add: wide_window_empty_cycles)
  have e0: "empty_flanking_cycles overlapping_lines example_feature []
     [BedLine ''chr1'' 1015 1016 ''id-2'' 4] 10000 10000 zero_tape 0 0 = Some 0"
    by simp
  note t1 = outer_loops [where f = example_feature and ?n0.0 = "''mir''" and gene = "''ENSG1''"
      and transcript = "''ENST1''" and rest = "[]" and allowed_regions_dict = example_dict
      and allowed_regions = "[(10, 200)]" and bedextract = overlapping_lines
      and query_bed = "[BedLine ''chr1'' 100 101 ''id-1'' 3]" and rnd = late_tape and c = 0
      and not_allowed = "[]" and window_r = 10000 and window_l = 10000, OF nm key]
  note t2 = outer_loops [where f = example_feature and ?n0.0 = "''mir''" and gene = "''ENSG1''"
      and transcript = "''ENST1''" and rest = "[]" and allowed_regions_dict = example_dict
      and allowed_regions = "[(10, 200)]" and bedextract = overlapping_lines
      and query_bed = "[]" and rnd = zero_tape and c = 0
      and not_allowed = "[]" and window_r = 10000 and window_l = 10000, OF nm key]
  note t3 = outer_loops [where f = example_feature and ?n0.0 = "''mir''" and gene = "''ENSG1''"
      and transcript = "''ENST1''" and rest = "[]" and allowed_regions_dict = example_dict
      and allowed_regions = "[(10, 200)]" and bedextract = overlapping_lines
      and query_bed = "[BedLine ''chr1'' 1015 1016 ''id-2'' 4]" and rnd = zero_tape and c = 0
      and not_allowed = "[]" and window_r = 10000 and window_l = 10000, OF nm key]
  have r1: "random_intragenic_simulation overlapping_lines example_feature example_dict
     [BedLine ''chr1'' 100 101 ''id-1'' 3] late_tape 0 = Some (Inr (Score 3, 4))"
    using t1 [THEN conjunct2, THEN conjunct1, rule_format,
        of 1 2 "Bed ''chr1'' 95 105" 1 4] cyc late_tape_runs(2) hit m1
    by simp
  have r2: "random_intragenic_simulation overlapping_lines example_feature example_dict [] zero_tape 0 =
     Some (Inr (NA, 200))"
    using t2 [THEN conjunct2, THEN conjunct2, THEN conjunct1, rule_format, of 200] e1 by simp
  have r3: "random_flanking_simulation overlapping_lines example_feature []
     [BedLine ''chr1'' 1015 1016 ''id-2'' 4] 10000 10000 zero_tape 0 = Some (Inr (Score 4, 2))"
    using t3 [THEN conjunct2, THEN conjunct2, THEN conjunct2, THEN conjunct2, THEN conjunct1,
        rule_format, of 0 0 "Bed ''chr1'' 1011 1021" 1 2] e0 wide_window_run [of 0] hit2 m2
    by simp
  have r4: "random_flanking_simulation overlapping_lines example_feature [] [] 10000 10000 zero_tape 0 =
     Some (Inr (NA, 200))"
    using t2 [THEN conjunct2, THEN conjunct2, THEN conjunct2, THEN conjunct2, THEN conjunct2,
        rule_format, of 200] e2 by simp
  show ?thesis using nm key cyc late_tape_runs(2) r1 r2 r3 r4 by (intro conjI)
qed

section \<open>The acceptance test after a shrunk window\<close>

lemma example_windows:
  "flanking_windows example_feature 10000 10000 = ((1011, 11010), (0, 999))"
  by (simp add: flanking_windows_def sorted2_def example_feature_def Let_def)

text \<open>
  Claim C2, evaluated where the code departs from it.  The feature is chr1:1000-1010 and
  the not-allowed store holds chr1:1015-2000.  The downstream window overlaps that gene, so
  the start is drawn from the gap [1010, 1015); the acceptance test then compares the end
  with the bound of the whole window, 11010, and accepts the candidate chr1:1010-1020,
  whose end lies beyond the gap and which overlaps the gene.
\<close>

theorem downstream_shrink_overlaps_not_allowed:
  "random_flanking_regions overlapping_lines example_feature near_gene 10000 10000 zero_tape 0 =
     Some (Inr (Bed ''chr1'' 1010 1020, 1, 2)) \<and>
   run_bedextract overlapping_lines (Bed ''chr1'' 1010 1020) near_gene =
     [BedLine ''chr1'' 1015 2000 ''gene'' 0]"
proof -
  have ch: "chrom example_feature = ''chr1''"
    by (simp add: example_feature_def)
  have att: "random_flanking_attempt overlapping_lines example_feature near_gene (1011, 11010) (0, 999)
     zero_tape None 0 = Inr ((1011, 11010), (1010, 1020), 2)"
    by (simp add: random_flanking_attempt_def choice2_def zero_tape_def run_bedextract_def
          overlapping_lines_def near_gene_def randrange_def example_feature_def fsize_def Let_def)
  have acc: "random_flanking_accept example_feature (1011, 11010) (1010, 1020)"
    by (simp add: random_flanking_accept_def check_overlap_def example_feature_def Let_def)
  have run: "random_flanking_regions overlapping_lines example_feature near_gene 10000 10000 zero_tape 0 =
     Some (Inr (Bed ''chr1'' 1010 1020, 1, 2))"
    unfolding random_flanking_regions_def example_windows
    by (subst random_flanking_loop.simps) (simp add: att acc ch)
  have ov: "run_bedextract overlapping_lines (Bed ''chr1'' 1010 1020) near_gene =
     [BedLine ''chr1'' 1015 2000 ''gene'' 0]"
    by (simp add: run_bedextract_def overlapping_lines_def near_gene_def)
  show ?thesis using run ov by (intro conjI)
qed

section \<open>Exceptions of the core operations\<close>

text \<open>
  Claim C3 as stated fails: the samplers raise.  An empty list of allowed regions gives
  \<^verbatim>\<open>IndexError\<close>, a pair of equal start and end gives \<^verbatim>\<open>ValueError\<close>, and a not-allowed
  gene that reaches back over the end of the feature gives \<^verbatim>\<open>ValueError\<close> in
  \<^verbatim>\<open>random_flanking_regions\<close> and so in \<^verbatim>\<open>random_flanking_simulation\<close>.
\<close>

theorem samplers_raise:
  "random_regions example_feature [] zero_tape 0 = Some (Inl IndexError) \<and>
   random_regions example_feature [(50, 50)] zero_tape 0 = Some (Inl ValueError) \<and>
   random_flanking_regions overlapping_lines example_feature boundary_gene 10000 10000 zero_tape 0 =
     Some (Inl ValueError) \<and>
   random_flanking_simulation overlapping_lines example_feature boundary_gene [] 10000 10000
     zero_tape 0 = Some (Inl ValueError)"
proof -
  have a: "random_regions example_feature [] zero_tape 0 = Some (Inl IndexError)"
    unfolding random_regions_def
    by (subst random_regions_loop.simps)
       (simp add: random_regions_attempt_def shuffle_first_def Let_def)
  have b: "random_regions example_feature [(50, 50)] zero_tape 0 = Some (Inl ValueError)"
    unfolding random_regions_def
    by (subst random_regions_loop.simps)
       (simp add: random_regions_attempt_def shuffle_first_def randrange_def Let_def)
  have att: "random_flanking_attempt overlapping_lines example_feature boundary_gene
     (1011, 11010) (0, 999) zero_tape None 0 = Inl ValueError"
    by (simp add: random_flanking_attempt_def choice2_def zero_tape_def run_bedextract_def
          overlapping_lines_def boundary_gene_def randrange_def example_feature_def fsize_def Let_def)
  have c: "random_flanking_regions overlapping_lines example_feature boundary_gene 10000 10000
     zero_tape 0 = Some (Inl ValueError)"
    unfolding random_flanking_regions_def example_windows
    by (subst random_flanking_loop.simps) (simp add: att)
  have d: "random_flanking_simulation overlapping_lines example_feature boundary_gene [] 10000 10000
     zero_tape 0 = Some (Inl ValueError)"
    unfolding random_flanking_simulation_def
    by (subst random_flanking_simulation_loop.simps) (simp add: c)
  show ?thesis using a b c d by (intro conjI)
qed

lemma random_regions_attempt_no_error:
  assumes "ar \<noteq> []" and "\<forall>(s, e) \<in> set ar. s < e"
  shows "\<exists>r acc c'. random_regions_attempt f ar rnd c = Inr (r, acc, c')"
proof -
  obtain rs re where pick: "ar ! (rnd c mod length ar) = (rs, re)"
    by (cases "ar ! (rnd c mod length ar)") auto
  have "ar ! (rnd c mod length ar) \<in> set ar" using assms(1) by simp
  then have lt: "rs < re" using assms(2) pick by auto
  show ?thesis using assms(1) pick lt
    by (simp add: random_regions_attempt_def shuffle_first_def randrange_def Let_def)
qed

lemma random_regions_no_error:
  assumes "ar \<noteq> []" and "\<forall>(s, e) \<in> set ar. s < e"
  shows "\<exists>r n c'. random_regions f ar rnd c = Some (Inr (r, n, c'))"
proof -
  obtain k c1 where
    rest: "(case random_regions_attempt f ar rnd c1 of
        Inl e \<Rightarrow> random_regions_loop f ar rnd 0 c = Some (Inl e)
      | Inr (r, accepted, c'') \<Rightarrow>
          if accepted then random_regions_loop f ar rnd 0 c = Some (Inr (r, 0 + k + 1, c''))
          else 0 + k + 1 = MAX_ATTEMPTS \<and>
               random_regions_loop f ar rnd 0 c = Some (Inr (NA_region, MAX_ATTEMPTS, c'')))"
    using random_regions_loop_cases [of 0 f ar rnd c] by (auto simp add: MAX_ATTEMPTS_def)
  obtain r acc c' where "random_regions_attempt f ar rnd c1 = Inr (r, acc, c')"
    using random_regions_attempt_no_error [OF assms, of f rnd c1] by blast
  with rest show ?thesis
    by (cases acc) (auto simp add: random_regions_def)
qed

lemma intragenic_loop_no_error:
  assumes "ar \<noteq> []" and "\<forall>(s, e) \<in> set ar. s < e"
  shows "a < MAX_ATTEMPTS \<Longrightarrow>
         \<exists>s n c'. random_intragenic_loop bx f ar q rnd a c = Some (Inr (s, n, c'))"
proof (induction "MAX_ATTEMPTS - a" arbitrary: a c)
  case 0
  then show ?case by simp
next
  case (Suc m)
  obtain r n c' where rr: "random_regions f ar rnd c = Some (Inr (r, n, c'))"
    using random_regions_no_error [OF assms, of f rnd c] by blast
  show ?case
  proof (cases "run_bedextract bx r q \<noteq> [] \<or> a + 1 = MAX_ATTEMPTS")
    case True
    then show ?thesis using rr by (subst random_intragenic_loop.simps) (auto simp add: Let_def)
  next
    case False
    then have lt: "a + 1 < MAX_ATTEMPTS" using Suc.prems by simp
    have m: "m = MAX_ATTEMPTS - (a + 1)" using Suc.hyps(2) by simp
    from Suc.hyps(1) [OF m lt, of c'] show ?thesis
      using rr False by (subst random_intragenic_loop.simps) simp
  qed
qed

lemma intragenic_simulation_no_error:
  assumes "count_list (name f) CHR ''_'' \<noteq> 1"
    and "\<forall>key ar. d key = Some ar \<longrightarrow> ar \<noteq> [] \<and> (\<forall>(s, e) \<in> set ar. s < e)"
  shows "\<exists>s c'. random_intragenic_simulation bx f d q rnd c = Some (Inr (s, c'))"
proof (cases "CHR ''_'' \<in> set (name f)")
  case False
  then show ?thesis by (simp add: random_intragenic_simulation_def)
next
  case True
  then have "count_list (name f) CHR ''_'' \<noteq> 0" by (simp add: count_list_0_iff)
  then have len: "3 \<le> length (split_on CHR ''_'' (name f))"
    using assms(1) by (simp add: length_split_on)
  then obtain n0 gene transcript rest where
    sp: "split_on CHR ''_'' (name f) = n0 # gene # transcript # rest"
    by (cases "split_on CHR ''_'' (name f)" rule: list.exhaust;
        simp; rename_tac x xs; case_tac xs; simp; rename_tac y ys; case_tac ys; simp)
  show ?thesis
  proof (cases "d (gene, transcript, chrom f)")
    case None
    then show ?thesis using True sp
      by (simp add: random_intragenic_simulation_def py_index_def Let_def)
  next
    case (Some ar)
    then have ok: "ar \<noteq> []" "\<forall>(s, e) \<in> set ar. s < e" using assms(2) by blast+
    obtain s n c' where "random_intragenic_loop bx f ar q rnd 0 c = Some (Inr (s, n, c'))"
      using intragenic_loop_no_error [OF ok, of 0 bx f q rnd c] by (auto simp add: MAX_ATTEMPTS_def)
    then show ?thesis
      using intragenic_simulation_loop [where d = d and f = f, OF sp Some, of bx q rnd c] by simp
  qed
qed

lemma flanking_attempt_no_error:
  assumes geom: "2 \<le> start f" "start f \<le> fend f" "2 \<le> window_r" "2 \<le> window_l"
    and w: "flanking_windows f window_r window_l = (right, left)"
    and right_clear: "\<forall>l \<in> set (run_bedextract bx (Bed (chrom f) (fst right) (snd right)) na).
                        fend f < b_start l"
    and left_clear: "\<forall>l \<in> set (run_bedextract bx (Bed (chrom f) (fst left) (snd left)) na).
                       b_end l < start f"
  shows "\<exists>flanking cand c'. random_flanking_attempt bx f na right left rnd prev c =
           Inr (flanking, cand, c')"
proof -
  have r: "right = (fend f + 1, fend f + window_r)"
    using w geom by (auto simp add: flanking_windows_def sorted2_def Let_def)
  have l: "fst left < snd left" "snd left = start f - 1"
    using w geom by (auto simp add: flanking_windows_def sorted2_def Let_def split: if_splits)
  show ?thesis
  proof (cases "rnd c mod 2 = 0")
    case True
    let ?go = "run_bedextract bx (Bed (chrom f) (fst right) (snd right)) na"
    show ?thesis
    proof (cases "?go = []")
      case True
      then show ?thesis using \<open>rnd c mod 2 = 0\<close> r geom
        by (simp add: random_flanking_attempt_def choice2_def randrange_def Let_def)
    next
      case False
      then have "?go ! 0 \<in> set ?go" by simp
      then have "fend f < b_start (?go ! 0)" using right_clear by blast
      then show ?thesis using \<open>rnd c mod 2 = 0\<close> False r geom
        by (simp add: random_flanking_attempt_def choice2_def randrange_def Let_def)
    qed
  next
    case False
    let ?go = "run_bedextract bx (Bed (chrom f) (fst left) (snd left)) na"
    show ?thesis
    proof (cases "?go = []")
      case True
      then show ?thesis using \<open>rnd c mod 2 \<noteq> 0\<close> l geom
        by (simp add: random_flanking_attempt_def choice2_def randrange_def Let_def)
    next
      case False
      then have "?go ! (length ?go - 1) \<in> set ?go" by simp
      then have "b_end (?go ! (length ?go - 1)) < start f" using left_clear by blast
      then show ?thesis using \<open>rnd c mod 2 \<noteq> 0\<close> False l geom
        by (simp add: random_flanking_attempt_def choice2_def randrange_def Let_def)
    qed
  qed
qed

lemma flanking_regions_no_error:
  assumes geom: "2 \<le> start f" "start f \<le> fend f" "2 \<le> window_r" "2 \<le> window_l"
    and w: "flanking_windows f window_r window_l = (right, left)"
    and right_clear: "\<forall>l \<in> set (run_bedextract bx (Bed (chrom f) (fst right) (snd right)) na).
                        fend f < b_start l"
    and left_clear: "\<forall>l \<in> set (run_bedextract bx (Bed (chrom f) (fst left) (snd left)) na).
                       b_end l < start f"
  shows "\<exists>r n c'. random_flanking_regions bx f na window_r window_l rnd c = Some (Inr (r, n, c'))"
proof -
  obtain k p1 c1 where
    rest: "(case random_flanking_attempt bx f na right left rnd p1 c1 of
        Inl e \<Rightarrow> random_flanking_loop bx f na right left rnd 0 None c = Some (Inl e)
      | Inr (flanking, cand, c') \<Rightarrow>
          if random_flanking_accept f flanking cand then
            random_flanking_loop bx f na right left rnd 0 None c =
              Some (Inr (Bed (chrom f) (fst cand) (snd cand), 0 + k + 1, c'))
          else 0 + k + 1 = MAX_ATTEMPTS \<and>
               random_flanking_loop bx f na right left rnd 0 None c =
                 Some (Inr (NA_region, MAX_ATTEMPTS, c')))"
    using random_flanking_loop_cases [of 0 bx f na right left rnd None c]
    by (auto simp add: MAX_ATTEMPTS_def)
  obtain flanking cand c' where
    "random_flanking_attempt bx f na right left rnd p1 c1 = Inr (flanking, cand, c')"
    using flanking_attempt_no_error [OF assms, of rnd p1 c1] by blast
  with rest show ?thesis
    by (cases "random_flanking_accept f flanking cand") (auto simp add: random_flanking_regions_def w)
qed

lemma flanking_simulation_loop_no_error:
  assumes "\<And>c. \<exists>r n c'. random_flanking_regions bx f na wr wl rnd c = Some (Inr (r, n, c'))"
  shows "a < MAX_ATTEMPTS \<Longrightarrow>
         \<exists>s n c'. random_flanking_simulation_loop bx f na q wr wl rnd a c = Some (Inr (s, n, c'))"
proof (induction "MAX_ATTEMPTS - a" arbitrary: a c)
  case 0
  then show ?case by simp
next
  case (Suc m)
  obtain r n c' where rr: "random_flanking_regions bx f na wr wl rnd c = Some (Inr (r, n, c'))"
    using assms [of c] by blast
  show ?case
  proof (cases "run_bedextract bx r q \<noteq> [] \<or> a + 1 = MAX_ATTEMPTS")
    case True
    then show ?thesis using rr
      by (subst random_flanking_simulation_loop.simps) (auto simp add: Let_def)
  next
    case False
    then have lt: "a + 1 < MAX_ATTEMPTS" using Suc.prems by simp
    have m: "m = MAX_ATTEMPTS - (a + 1)" using Suc.hyps(2) by simp
    from Suc.hyps(1) [OF m lt, of c'] show ?thesis
      using rr False by (subst random_flanking_simulation_loop.simps) simp
  qed
qed

lemma flanking_simulation_score: 
  "flanking_simulation bx f na q = NA \<or> (\<exists>x. flanking_simulation bx f na q = Score x)"
  by (auto simp add: flanking_simulation_def calculate_mean_score_def Let_def split: prod.splits)

text \<open>
  Claim C3, amended.  No core operation raises, and each returns a value or a sentinel,
  when the list of allowed regions is not empty and every pair in it (and in every list of
  the dictionary) has its start below its end, the feature name does not hold exactly one
  underscore, the feature starts at 2 or later and does not end before it starts, both
  windows are at least 2, every not-allowed line reported for the right window starts
  after the end of the feature and every one reported for the left window ends before its
  start.  \<^verbatim>\<open>flanking_simulation\<close> returns a number or \<^verbatim>\<open>"NA"\<close> on every input.
\<close>

theorem core_returns_sentinels:
  assumes "allowed_regions \<noteq> []" and "\<forall>(s, e) \<in> set allowed_regions. s < e"
    and "count_list (name f) CHR ''_'' \<noteq> 1"
    and "\<forall>key ar. allowed_regions_dict key = Some ar \<longrightarrow> ar \<noteq> [] \<and> (\<forall>(s, e) \<in> set ar. s < e)"
    and "2 \<le> start f" and "start f \<le> fend f" and "2 \<le> window_r" and "2 \<le> window_l"
    and "flanking_windows f window_r window_l = (right, left)"
    and "\<forall>l \<in> set (run_bedextract bedextract (Bed (chrom f) (fst right) (snd right)) not_allowed).
           fend f < b_start l"
    and "\<forall>l \<in> set (run_bedextract bedextract (Bed (chrom f) (fst left) (snd left)) not_allowed).
           b_end l < start f"
  shows
    "(flanking_simulation bedextract f not_allowed query_bed = NA \<or>
      (\<exists>x. flanking_simulation bedextract f not_allowed query_bed = Score x)) \<and>
     (\<exists>r n c'. random_regions f allowed_regions rnd c = Some (Inr (r, n, c'))) \<and>
     (\<exists>s c'. random_intragenic_simulation bedextract f allowed_regions_dict query_bed rnd c =
        Some (Inr (s, c'))) \<and>
     (\<exists>r n c'. random_flanking_regions bedextract f not_allowed window_r window_l rnd c =
        Some (Inr (r, n, c'))) \<and>
     (\<exists>s c'. random_flanking_simulation bedextract f not_allowed query_bed window_r window_l rnd c =
        Some (Inr (s, c')))"
proof -
  have fr: "\<exists>r n c'. random_flanking_regions bedextract f not_allowed window_r window_l rnd c =
        Some (Inr (r, n, c'))" for c
    using assms(5-11) by (rule flanking_regions_no_error)
  obtain s n c' where
    "random_flanking_simulation_loop bedextract f not_allowed query_bed window_r window_l rnd 0 c =
       Some (Inr (s, n, c'))"
    using flanking_simulation_loop_no_error
      [of bedextract f not_allowed window_r window_l rnd 0 query_bed c, OF fr]
    by (auto simp add: MAX_ATTEMPTS_def)
  then have fs: "\<exists>s c'. random_flanking_simulation bedextract f not_allowed query_bed window_r
      window_l rnd c = Some (Inr (s, c'))"
    by (simp add: random_flanking_simulation_def)
  show ?thesis
    apply (rule conjI, rule flanking_simulation_score)
    apply (rule conjI, rule random_regions_no_error [OF assms(1,2)])
    apply (rule conjI, rule intragenic_simulation_no_error [OF assms(3,4)])
    apply (rule conjI, rule fr)
    apply (rule fs)
    done
qed

theorem core_returns_sentinels_witness:
  "count_list (name example_feature) CHR ''_'' = 2 \<and>
   example_dict (''ENSG1'', ''ENST1'', ''chr1'') = Some [(10, 200)] \<and>
   flanking_windows example_feature 10000 10000 = ((1011, 11010), (0, 999)) \<and>
   run_bedextract overlapping_lines (Bed ''chr1'' 1011 11010) far_gene =
     [BedLine ''chr1'' 1500 2000 ''gene'' 0] \<and>
   run_bedextract overlapping_lines (Bed ''chr1'' 0 999) far_gene = [] \<and>
   flanking_simulation overlapping_lines example_feature far_gene example_scores = Score 7 \<and>
   random_regions example_feature [(10, 200)] zero_tape 0 = Some (Inr (Bed ''chr1'' 10 20, 1, 2)) \<and>
   random_intragenic_simulation overlapping_lines example_feature example_dict example_scores
     zero_tape 0 = Some (Inr (Score 5, 2)) \<and>
   random_flanking_regions overlapping_lines example_feature far_gene 10000 10000 zero_tape 0 =
     Some (Inr (Bed ''chr1'' 1010 1020, 1, 2)) \<and>
   random_flanking_simulation overlapping_lines example_feature far_gene example_scores 10000 10000
     zero_tape 0 = Some (Inr (Score 7, 2))"
proof -
  have ch: "chrom example_feature = ''chr1''" and st: "start example_feature = 1000"
    and en: "fend example_feature = 1010"
    by (simp_all add: example_feature_def)
  have h1: "[(10, 200)] \<noteq> ([] :: (int \<times> int) list)" by simp
  have h2: "\<forall>(s, e) \<in> set [(10::int, 200::int)]. s < e" by simp
  have h3: "count_list (name example_feature) CHR ''_'' = 2"
    by (simp add: example_feature_def)
  then have h3': "count_list (name example_feature) CHR ''_'' \<noteq> 1" by simp
  have key: "example_dict (''ENSG1'', ''ENST1'', ''chr1'') = Some [(10, 200)]"
    by (simp add: example_dict_def)
  have h4: "\<forall>key ar. example_dict key = Some ar \<longrightarrow> ar \<noteq> [] \<and> (\<forall>(s, e) \<in> set ar. s < e)"
    by (auto simp add: example_dict_def split: if_splits)
  have h5: "2 \<le> start example_feature" "start example_feature \<le> fend example_feature"
    "(2::int) \<le> 10000"
    by (simp_all add: st en)
  have qr: "run_bedextract overlapping_lines (Bed ''chr1'' 1011 11010) far_gene =
     [BedLine ''chr1'' 1500 2000 ''gene'' 0]"
    and ql: "run_bedextract overlapping_lines (Bed ''chr1'' 0 999) far_gene = []"
    by (simp_all add: run_bedextract_def overlapping_lines_def far_gene_def)
  have h6: "\<forall>l \<in> set (run_bedextract overlapping_lines
        (Bed (chrom example_feature) (fst (1011, 11010)) (snd (1011, 11010))) far_gene).
      fend example_feature < b_start l"
    by (simp add: ch en qr)
  have h7: "\<forall>l \<in> set (run_bedextract overlapping_lines
        (Bed (chrom example_feature) (fst (0, 999)) (snd (0, 999))) far_gene).
      b_end l < start example_feature"
    by (simp add: ch ql)
  note th = core_returns_sentinels [where allowed_regions = "[(10, 200)]" and f = example_feature
      and allowed_regions_dict = example_dict and window_r = 10000 and window_l = 10000
      and right = "(1011, 11010)" and left = "(0, 999)" and bedextract = overlapping_lines
      and not_allowed = far_gene and query_bed = example_scores and rnd = zero_tape and c = 0,
      OF h1 h2 h3' h4 h5(1) h5(2) h5(3) h5(3) example_windows h6 h7]
  have r1: "flanking_simulation overlapping_lines example_feature far_gene example_scores = Score 7"
    using th 
    by (simp add: flanking_simulation_def flanking_regions_def fsize_def ch st en run_bedextract_def
          overlapping_lines_def far_gene_def example_scores_def calculate_mean_score_def mean_def)
  have r2: "random_regions example_feature [(10, 200)] zero_tape 0 =
     Some (Inr (Bed ''chr1'' 10 20, 1, 2))"
    using th wide_region_run [of 0] by simp
  have sp: "split_on CHR ''_'' (name example_feature) = ''mir'' # ''ENSG1'' # ''ENST1'' # []"
    by (simp add: example_feature_def)
  have key': "example_dict (''ENSG1'', ''ENST1'', chrom example_feature) = Some [(10, 200)]"
    by (simp add: key ch)
  have hit1: "run_bedextract overlapping_lines (Bed ''chr1'' 10 20) example_scores =
     [BedLine ''chr1'' 12 13 ''id-1'' 5]"
    and hit2: "run_bedextract overlapping_lines (Bed ''chr1'' 1010 1020) example_scores =
     [BedLine ''chr1'' 1012 1013 ''id-2'' 7]"
    by (simp_all add: run_bedextract_def overlapping_lines_def example_scores_def)
  have m1: "calculate_mean_score [BedLine ''chr1'' 12 13 ''id-1'' 5] = Score 5"
    and m2: "calculate_mean_score [BedLine ''chr1'' 1012 1013 ''id-2'' 7] = Score 7"
    by (simp_all add: calculate_mean_score_def mean_def)
  have lp: "random_intragenic_loop overlapping_lines example_feature [(10, 200)] example_scores
     zero_tape 0 0 = Some (Inr (Score 5, 1, 2))"
    by (subst random_intragenic_loop.simps) (simp add: wide_region_run hit1 m1)
  have r3: "random_intragenic_simulation overlapping_lines example_feature example_dict
     example_scores zero_tape 0 = Some (Inr (Score 5, 2))"
    using th
      intragenic_simulation_loop [where f = example_feature and d = example_dict, OF sp key',
        of overlapping_lines example_scores zero_tape 0]
    by (simp add: lp)
  have att: "random_flanking_attempt overlapping_lines example_feature far_gene (1011, 11010) (0, 999)
     zero_tape None c = Inr ((1011, 11010), (1010, 1020), Suc (Suc c))" for c
    by (simp add: random_flanking_attempt_def choice2_def zero_tape_def qr ch st en
          randrange_def fsize_def Let_def)
  have acc: "random_flanking_accept example_feature (1011, 11010) (1010, 1020)"
    by (simp add: random_flanking_accept_def check_overlap_def ch st en Let_def)
  have fr: "random_flanking_regions overlapping_lines example_feature far_gene 10000 10000
     zero_tape 0 = Some (Inr (Bed ''chr1'' 1010 1020, 1, 2))"
    unfolding random_flanking_regions_def example_windows
    by (subst random_flanking_loop.simps) (simp add: att acc ch)
  have r4: "random_flanking_regions overlapping_lines example_feature far_gene 10000 10000
     zero_tape 0 = Some (Inr (Bed ''chr1'' 1010 1020, 1, 2))"
    using th fr by simp
  have r5: "random_flanking_simulation overlapping_lines example_feature far_gene example_scores
     10000 10000 zero_tape 0 = Some (Inr (Score 7, 2))"
    unfolding random_flanking_simulation_def
    by (subst random_flanking_simulation_loop.simps) (simp add: fr hit2 m2)
  show ?thesis using h3 key example_windows qr ql r1 r2 r3 r4 r5 by (intro conjI)
qed

end
